theory Spec2Isabelle
  imports Main
begin

section \<open>Values shared by the handlers\<close>

text \<open>
  JSON values as far as the router builds or forwards them: string leaves and objects.
  A thrown JavaScript value is represented by the JSON value that \<open>res.json\<close> would
  serialise it to.
\<close>

datatype json = JString string | JObject "(string \<times> json) list"

datatype body = Json json | Text string | Empty

text \<open>
  A response is either written by the router itself (status and body) or by the
  transport object that \<open>transport.handleRequest(req, res)\<close> was called on.
\<close>

datatype response = Response nat body | Forwarded nat

text \<open>
  A \<open>TypeError\<close> raised by the runtime (calling something that is not a function,
  reading a property of \<open>undefined\<close>) has no enumerable fields: \<open>res.json\<close> serialises it
  to the empty object.
\<close>

definition type_error :: json where
  "type_error = JObject []"

text \<open>JavaScript truthiness of an optional string: \<open>undefined\<close> and \<open>""\<close> are falsy.\<close>

fun truthy :: "string option \<Rightarrow> bool" where
  "truthy None = False"
| "truthy (Some s) = (s \<noteq> [])"

section \<open>retryDbQuery (lib/utils)\<close>

text \<open>
  \<open>RetryOptions\<close>: both fields optional. A \<open>number\<close> that holds an integer is modelled
  by \<open>int\<close>; values that are not integers (fractions, \<open>NaN\<close>, \<open>Infinity\<close>) are outside
  this model.
\<close>

record RetryOptions =
  retries :: "int option"
  delayMs :: "int option"

text \<open>
  \<open>attempt++\<close> on a double: \<open>attempt\<close> starts at 0 and is increased by one, which is
  exact below \<open>2 ^ 53\<close>; at \<open>2 ^ 53\<close> the sum rounds back to \<open>2 ^ 53\<close> and the counter
  stays there. Other values of \<open>attempt\<close> do not occur.
\<close>

definition js_increment :: "int \<Rightarrow> int" where
  "js_increment a = (if a < 2 ^ 53 then a + 1 else a)"

text \<open>
  The query is an effectful thunk; \<open>query k\<close> is the outcome of its invocation number
  \<open>k\<close> (counted from 0): \<open>Inl err\<close> when the promise rejects with \<open>err\<close>, \<open>Inr v\<close>
  when it resolves to \<open>v\<close>. The loop \<open>while (true)\<close> is the recursion below; it returns
  the outcome together with the number of invocations made so far, and \<open>None\<close> when
  the loop never ends. The delay between attempts has no effect on the result and is
  left out.
\<close>

partial_function (option) retry_loop ::
  "(nat \<Rightarrow> 'e + 'a) \<Rightarrow> int \<Rightarrow> int \<Rightarrow> nat \<Rightarrow> (('e + 'a) \<times> nat) option" where
  "retry_loop query n attempt calls =
     (case query calls of
        Inr v \<Rightarrow> Some (Inr v, Suc calls)
      | Inl err \<Rightarrow>
          (if attempt \<ge> n then Some (Inl err, Suc calls)
           else retry_loop query n (js_increment attempt) (Suc calls)))"

text \<open>The destructuring default \<open>retries = 10\<close>.\<close>

definition retries_or_default :: "RetryOptions \<Rightarrow> int" where
  "retries_or_default options = (case retries options of None \<Rightarrow> 10 | Some r \<Rightarrow> r)"

definition retryDbQuery ::
  "(nat \<Rightarrow> 'e + 'a) \<Rightarrow> RetryOptions \<Rightarrow> (('e + 'a) \<times> nat) option" where
  "retryDbQuery query options = retry_loop query (retries_or_default options) 0 0"

section \<open>Authentication middleware (streamable-http.ts)\<close>

record endpoint =
  namespace_uuid :: string
  enable_api_key_auth :: bool
  use_query_param_auth :: bool

text \<open>The parts of the Express request the middleware and the handlers read.\<close>

record request =
  authorization :: "string option"
  x_api_key :: "string option"
  query_api_key :: "string option"
  query_apikey :: "string option"
  mcp_session_id :: "string option"

record validation =
  valid :: bool
  user_id :: "string option"
  key_uuid :: "string option"

text \<open>
  Outcome of a middleware: \<open>Next\<close> is the call \<open>next()\<close>, carrying the values of
  \<open>apiKeyUserId\<close> and \<open>apiKeyUuid\<close> left on the request; \<open>Reply\<close> is a response
  written by the middleware itself.
\<close>

datatype auth_result = Next "string option" "string option" | Reply nat json

fun join_comma :: "string list \<Rightarrow> string" where
  "join_comma [] = []"
| "join_comma [x] = x"
| "join_comma (x # y # ys) = x @ '', '' @ join_comma (y # ys)"

text \<open>
  The key taken from the headers: the rest of \<open>Authorization\<close> after \<open>Bearer \<close> when
  the header is truthy and starts with it, the \<open>x-api-key\<close> header otherwise.
\<close>

definition header_key :: "request \<Rightarrow> string option" where
  "header_key req =
     (case authorization req of
        None \<Rightarrow> x_api_key req
      | Some authHeader \<Rightarrow>
          if authHeader \<noteq> [] \<and> take 7 authHeader = ''Bearer ''
          then Some (drop 7 authHeader)
          else x_api_key req)"

text \<open>\<open>req.query.api_key || req.query.apikey\<close>\<close>

definition query_key :: "request \<Rightarrow> string option" where
  "query_key req =
     (if truthy (query_api_key req) then query_api_key req else query_apikey req)"

text \<open>The 401 answer when no key was found; it lists the accepted methods.\<close>

definition auth_required_reply :: "endpoint \<Rightarrow> auth_result" where
  "auth_required_reply ep =
     (let authMethods =
            [''Authorization header (Bearer token)'', ''X-API-Key header''] @
            (if use_query_param_auth ep
             then [''query parameter (api_key or apikey)''] else [])
      in Reply 401 (JObject
           [(''error'', JString ''Authentication required''),
            (''message'', JString (''API key required in one of: '' @ join_comma authMethods))]))"

text \<open>
  The tail of \<open>authenticateApiKey\<close> once a truthy key \<open>k\<close> has been extracted.
  The credential validator \<open>apiKeysRepository.validateApiKey\<close> is a parameter;
  \<open>Inl err\<close> is a rejected promise, caught by the middleware's \<open>catch\<close>.
\<close>

definition validate_and_continue ::
  "(string \<Rightarrow> json + validation) \<Rightarrow> string \<Rightarrow> auth_result" where
  "validate_and_continue validateApiKey k =
     (case validateApiKey k of
        Inl err \<Rightarrow>
          Reply 500 (JObject
            [(''error'', JString ''Internal server error''),
             (''message'', JString ''Failed to validate API key'')])
      | Inr v \<Rightarrow>
          (if \<not> valid v
           then Reply 401 (JObject
                  [(''error'', JString ''Invalid API key''),
                   (''message'', JString ''The provided API key is invalid or inactive'')])
           else Next (user_id v) (key_uuid v)))"

text \<open>
  \<open>authenticateApiKey\<close>. The second component of the result lists the keys the
  validator was called with, in order.
\<close>

definition authenticateApiKey ::
  "(string \<Rightarrow> json + validation) \<Rightarrow> endpoint option \<Rightarrow> request \<Rightarrow> auth_result \<times> string list" where
  "authenticateApiKey validateApiKey endpoint_opt req =
     (case endpoint_opt of
        None \<Rightarrow> (Next None None, [])
      | Some ep \<Rightarrow>
          (if \<not> enable_api_key_auth ep then (Next None None, [])
           else
             (let apiKey0 = header_key req;
                  apiKey = (if \<not> truthy apiKey0 \<and> use_query_param_auth ep
                            then query_key req else apiKey0)
              in (case apiKey of
                    None \<Rightarrow> (auth_required_reply ep, [])
                  | Some k \<Rightarrow>
                      (if k = [] then (auth_required_reply ep, [])
                       else (validate_and_continue validateApiKey k, [k]))))))"

text \<open>
  \<open>lookupEndpoint\<close>: the directory lookup \<open>endpointsRepository.findByName\<close> is a
  parameter; \<open>Inl err\<close> is a rejected promise, \<open>Inr None\<close> an unknown name.
\<close>

definition lookupEndpoint ::
  "(string \<Rightarrow> json + endpoint option) \<Rightarrow> string \<Rightarrow> response + endpoint" where
  "lookupEndpoint findByName endpointName =
     (case findByName endpointName of
        Inl err \<Rightarrow>
          Inl (Response 500 (Json (JObject
                 [(''error'', JString ''Internal server error''),
                  (''message'', JString ''Failed to lookup endpoint'')])))
      | Inr None \<Rightarrow>
          Inl (Response 404 (Json (JObject
                 [(''error'', JString ''Endpoint not found''),
                  (''message'', JString (''No endpoint found with name: '' @ endpointName))])))
      | Inr (Some ep) \<Rightarrow> Inr ep)"

section \<open>Plain objects used as tables\<close>

text \<open>
  The three module-level tables are object literals \<open>{}\<close>, so a lookup \<open>table[key]\<close>
  that finds no own property continues on \<open>Object.prototype\<close>. These are the names
  \<open>Object.prototype\<close> defines.
\<close>

definition object_prototype_members :: "string list" where
  "object_prototype_members =
     [''constructor'', ''__defineGetter__'', ''__defineSetter__'', ''hasOwnProperty'',
      ''__lookupGetter__'', ''__lookupSetter__'', ''isPrototypeOf'', ''propertyIsEnumerable'',
      ''toString'', ''valueOf'', ''__proto__'', ''toLocaleString'']"

text \<open>
  The result of \<open>table[key]\<close>: an own property, a member inherited from
  \<open>Object.prototype\<close> (a function, or for \<open>__proto__\<close> the prototype object itself; truthy
  in both cases), or \<open>undefined\<close>. The key \<open>__proto__\<close> is an accessor and never an own
  property.
\<close>

datatype 'v slot = Own 'v | Inherited | Undefined

definition js_get :: "(string \<rightharpoonup> 'v) \<Rightarrow> string \<Rightarrow> 'v slot" where
  "js_get own k =
     (if k = ''__proto__'' then Inherited
      else (case own k of
              Some v \<Rightarrow> Own v
            | None \<Rightarrow> if k \<in> set object_prototype_members then Inherited else Undefined))"

text \<open>
  The assignment \<open>table[key] = value\<close> creates or overwrites an own property, except for
  the key \<open>__proto__\<close>, whose setter creates none: it ignores a primitive value. (With an
  object value it would replace the prototype. No assignment of the router does that:
  the counts are primitives, \<open>metamcpServers\<close> is assigned only under a key whose lookup
  found nothing, and \<open>transports\<close> only under a key returned by \<open>randomUUID()\<close>, which
  is a UUID.)
\<close>

definition js_put :: "string \<Rightarrow> 'v \<Rightarrow> (string \<rightharpoonup> 'v) \<Rightarrow> (string \<rightharpoonup> 'v)" where
  "js_put k v own = (if k = ''__proto__'' then own else own(k \<mapsto> v))"

text \<open>\<open>delete table[key]\<close> removes an own property and nothing else.\<close>

definition js_delete :: "string \<Rightarrow> (string \<rightharpoonup> 'v) \<Rightarrow> (string \<rightharpoonup> 'v)" where
  "js_delete k own = own(k := None)"

text \<open>
  The values that the count expressions of the router produce:
  \<^item> \<open>Num n\<close>, a number;
  \<^item> \<open>Member k\<close>, the member of \<open>Object.prototype\<close> named \<open>k\<close>;
  \<^item> \<open>Appended k n\<close>, the string that \<open>Member k\<close> converts to, followed by \<open>n\<close>
    characters \<open>1\<close> (for instance \<open>function Object() { [native code] }1\<close>): \<open>+ 1\<close> on
    a value that is not a number is string concatenation.
  The last two are truthy, and compared with a number they convert to \<open>NaN\<close>, so every
  comparison with them is false.
\<close>

datatype count = Num int | Member string | Appended string nat

fun js_plus_one :: "count \<Rightarrow> count" where
  "js_plus_one (Num n) = Num (n + 1)"
| "js_plus_one (Member k) = Appended k 1"
| "js_plus_one (Appended k n) = Appended k (Suc n)"

fun js_gt_zero :: "count \<Rightarrow> bool" where
  "js_gt_zero (Num n) = (n > 0)"
| "js_gt_zero (Member k) = False"
| "js_gt_zero (Appended k n) = False"

fun js_le_zero :: "count \<Rightarrow> bool" where
  "js_le_zero (Num n) = (n \<le> 0)"
| "js_le_zero (Member k) = False"
| "js_le_zero (Appended k n) = False"

section \<open>Session registry and instance cache (streamable-http.ts)\<close>

text \<open>
  Objects created at run time (server instances returned by \<open>createServer\<close>, transports
  built by \<open>new StreamableHTTPServerTransport\<close>) are identified by a number taken from
  the counter \<open>fresh\<close>, so that identity of objects can be compared. Calls on external
  collaborators are recorded, in order, in \<open>events\<close>.
\<close>

datatype event =
    FactoryCall string string nat
  | NewTransport nat
  | Connect nat nat
  | HandleRequest nat
  | Close nat
  | SessionCleanup string
  | Teardown nat

text \<open>
  The own properties of the three module-level tables: \<open>transports\<close> by session id,
  \<open>metamcpServers\<close> and \<open>endpointSessionCounts\<close> by endpoint name. The router reads them
  with \<open>js_get\<close>.
\<close>

record gateway =
  transports :: "string \<rightharpoonup> nat"
  metamcpServers :: "string \<rightharpoonup> nat"
  endpointSessionCounts :: "string \<rightharpoonup> count"
  fresh :: nat
  events :: "event list"

definition gateway0 :: gateway where
  "gateway0 = \<lparr> transports = Map.empty, metamcpServers = Map.empty,
                 endpointSessionCounts = Map.empty, fresh = 0, events = [] \<rparr>"

text \<open>
  What one request brings with it: the values \<open>lookupEndpoint\<close> put on the request, the
  value \<open>randomUUID()\<close> returns, and for every external call the handler may make
  whether it throws (\<open>Some err\<close>: it throws or rejects with \<open>err\<close>).
\<close>

record call_env =
  namespaceUuid :: string
  endpointName :: string
  randomUUID :: string
  createServer_throws :: "json option"
  newTransport_throws :: "json option"
  connect_throws :: "json option"
  handleRequest_throws :: "json option"
  close_throws :: "json option"
  cleanupSessionConnections_throws :: "json option"
  cleanup_throws :: "json option"

text \<open>\<open>endpointSessionCounts[endpointName] || 0\<close>\<close>

definition count_or_zero :: "gateway \<Rightarrow> string \<Rightarrow> count" where
  "count_or_zero g ep =
     (case js_get (endpointSessionCounts g) ep of
        Own c \<Rightarrow> c
      | Inherited \<Rightarrow> Member ep
      | Undefined \<Rightarrow> Num 0)"

subsection \<open>Begin: the POST handler without a session id\<close>

text \<open>
  What \<open>createMetaMcpServer\<close> returns: a server instance (cached or new), or, when the
  endpoint name is the name of a member of \<open>Object.prototype\<close>, that member, which the
  test \<open>if (metamcpServers[endpointName])\<close> takes for a cached instance.
\<close>

datatype handle = Instance nat | PrototypeMember string

text \<open>
  The handler is an \<open>async\<close> function: it runs without interruption from one \<open>await\<close> to
  the next, and other requests may run in between. A task is the point at which a Begin
  request is suspended:
  \<^item> \<open>BeginStart\<close>: the handler has not run yet;
  \<^item> \<open>AwaitCreateServer inst\<close>: \<open>createMetaMcpServer\<close> found no cached instance, called
    \<open>createServer\<close> and waits for it to produce \<open>inst\<close>;
  \<^item> \<open>AwaitInstance r\<close>: \<open>createMetaMcpServer\<close> has settled with \<open>r\<close> and the handler waits
    to be resumed;
  \<^item> \<open>AwaitConnect inst t\<close>: the handler waits for \<open>server.connect(transport)\<close>;
  \<^item> \<open>AwaitHandleRequest t\<close>: the handler waits for \<open>transport.handleRequest\<close>;
  \<^item> \<open>Finished r\<close>: the handler has returned with response \<open>r\<close>.
  The test \<open>if (!mcpServerInstance)\<close> after \<open>createMetaMcpServer\<close> never fires: the
  function returns a truthy value or rejects. With a member of \<open>Object.prototype\<close> in the
  place of the instance, \<open>mcpServerInstance.server\<close> is \<open>undefined\<close> and
  \<open>mcpServerInstance.server.connect\<close> throws a \<open>TypeError\<close> before anything is called.
\<close>

datatype task =
    BeginStart
  | AwaitCreateServer nat
  | AwaitInstance "json + handle"
  | AwaitConnect nat nat
  | AwaitHandleRequest nat
  | Finished response

fun begin_step :: "call_env \<Rightarrow> gateway \<times> task \<Rightarrow> gateway \<times> task" where
  "begin_step env (g, BeginStart) =
     (case js_get (metamcpServers g) (endpointName env) of
        Own inst \<Rightarrow> (g, AwaitInstance (Inr (Instance inst)))
      | Inherited \<Rightarrow> (g, AwaitInstance (Inr (PrototypeMember (endpointName env))))
      | Undefined \<Rightarrow>
          (g\<lparr> fresh := Suc (fresh g),
              events := events g @ [FactoryCall (namespaceUuid env) (randomUUID env) (fresh g)] \<rparr>,
           AwaitCreateServer (fresh g)))"
| "begin_step env (g, AwaitCreateServer inst) =
     (case createServer_throws env of
        Some err \<Rightarrow> (g, AwaitInstance (Inl err))
      | None \<Rightarrow>
          (g\<lparr> metamcpServers := js_put (endpointName env) inst (metamcpServers g) \<rparr>,
           AwaitInstance (Inr (Instance inst))))"
| "begin_step env (g, AwaitInstance (Inl err)) = (g, Finished (Response 500 (Json err)))"
| "begin_step env (g, AwaitInstance (Inr h)) =
     (let g1 = g\<lparr> endpointSessionCounts :=
                   js_put (endpointName env) (js_plus_one (count_or_zero g (endpointName env)))
                     (endpointSessionCounts g) \<rparr>
      in case newTransport_throws env of
           Some err \<Rightarrow> (g1, Finished (Response 500 (Json err)))
         | None \<Rightarrow>
             (let t = fresh g1;
                  g2 = g1\<lparr> transports := js_put (randomUUID env) t (transports g1),
                           fresh := Suc (fresh g1),
                           events := events g1 @ [NewTransport t] \<rparr>
              in case h of
                   Instance inst \<Rightarrow>
                     (g2\<lparr> events := events g2 @ [Connect inst t] \<rparr>, AwaitConnect inst t)
                 | PrototypeMember k \<Rightarrow> (g2, Finished (Response 500 (Json type_error)))))"
| "begin_step env (g, AwaitConnect inst t) =
     (case connect_throws env of
        Some err \<Rightarrow> (g, Finished (Response 500 (Json err)))
      | None \<Rightarrow> (g\<lparr> events := events g @ [HandleRequest t] \<rparr>, AwaitHandleRequest t))"
| "begin_step env (g, AwaitHandleRequest t) =
     (case handleRequest_throws env of
        Some err \<Rightarrow> (g, Finished (Response 500 (Json err)))
      | None \<Rightarrow> (g, Finished (Forwarded t)))"
| "begin_step env (g, Finished r) = (g, Finished r)"

text \<open>A Begin request that runs to its end with no other request in between.\<close>

fun remaining :: "task \<Rightarrow> nat" where
  "remaining BeginStart = 5"
| "remaining (AwaitCreateServer inst) = 4"
| "remaining (AwaitInstance r) = 3"
| "remaining (AwaitConnect inst t) = 2"
| "remaining (AwaitHandleRequest t) = 1"
| "remaining (Finished r) = 0"

function run_begin :: "call_env \<Rightarrow> gateway \<times> task \<Rightarrow> response \<times> gateway" where
  "run_begin env (g, Finished r) = (r, g)"
| "run_begin env (g, BeginStart) = run_begin env (begin_step env (g, BeginStart))"
| "run_begin env (g, AwaitCreateServer inst) =
     run_begin env (begin_step env (g, AwaitCreateServer inst))"
| "run_begin env (g, AwaitInstance r) = run_begin env (begin_step env (g, AwaitInstance r))"
| "run_begin env (g, AwaitConnect inst t) =
     run_begin env (begin_step env (g, AwaitConnect inst t))"
| "run_begin env (g, AwaitHandleRequest t) =
     run_begin env (begin_step env (g, AwaitHandleRequest t))"
  by pat_completeness auto
termination
proof (relation "measure (\<lambda>(env, c). remaining (snd c))")
  fix env g r
  show "((env, begin_step env (g, AwaitInstance r)), (env, (g, AwaitInstance r)))
        \<in> measure (\<lambda>(env, c). remaining (snd c))"
  proof (cases r)
    case (Inl err)
    then show ?thesis by simp
  next
    case (Inr h)
    then show ?thesis by (cases h) (simp_all add: Let_def split: option.splits)
  qed
qed (simp_all split: option.splits slot.splits)

definition post_begin :: "call_env \<Rightarrow> gateway \<Rightarrow> response \<times> gateway" where
  "post_begin env g = run_begin env (g, BeginStart)"

text \<open>
  Several Begin requests in flight at once: \<open>run_schedule envs is\<close> resumes, for each
  index in \<open>is\<close> in turn, the request with that index for one step.
\<close>

fun run_schedule ::
  "call_env list \<Rightarrow> nat list \<Rightarrow> gateway \<times> task list \<Rightarrow> gateway \<times> task list" where
  "run_schedule envs [] c = c"
| "run_schedule envs (i # is) (g, ts) =
     (if i < length ts \<and> i < length envs
      then (case begin_step (envs ! i) (g, ts ! i) of
              (g', t') \<Rightarrow> run_schedule envs is (g', ts[i := t']))
      else run_schedule envs is (g, ts))"

subsection \<open>Continue: GET, and POST with a session id\<close>

text \<open>
  \<open>await transport.handleRequest(req, res)\<close> inside the handler's \<open>try\<close>: the call is
  made on transport \<open>t\<close>; when it throws, the \<open>catch\<close> answers
  \<open>res.status(500).json(error)\<close>.
\<close>

definition forward :: "call_env \<Rightarrow> nat \<Rightarrow> gateway \<Rightarrow> response \<times> gateway" where
  "forward env t g =
     (let g1 = g\<lparr> events := events g @ [HandleRequest t] \<rparr>
      in case handleRequest_throws env of
           Some err \<Rightarrow> (Response 500 (Json err), g1)
         | None \<Rightarrow> (Forwarded t, g1))"

text \<open>
  The GET handler indexes \<open>transports\<close> with the header value as it is; an absent header
  is the property name \<open>undefined\<close>. A member of \<open>Object.prototype\<close> found under the
  session id is truthy and has no \<open>handleRequest\<close>: the call throws a \<open>TypeError\<close>.
\<close>

definition get_handler :: "call_env \<Rightarrow> string option \<Rightarrow> gateway \<Rightarrow> response \<times> gateway" where
  "get_handler env sessionId g =
     (case js_get (transports g) (case sessionId of None \<Rightarrow> ''undefined'' | Some s \<Rightarrow> s) of
        Undefined \<Rightarrow> (Response 404 (Text ''Session not found''), g)
      | Inherited \<Rightarrow> (Response 500 (Json type_error), g)
      | Own t \<Rightarrow> forward env t g)"

definition post_continue :: "call_env \<Rightarrow> string \<Rightarrow> gateway \<Rightarrow> response \<times> gateway" where
  "post_continue env sessionId g =
     (case js_get (transports g) sessionId of
        Undefined \<Rightarrow>
          (Response 404 (Text (''Transport not found for sessionId '' @ sessionId)), g)
      | Inherited \<Rightarrow> (Response 500 (Json type_error), g)
      | Own t \<Rightarrow> forward env t g)"

text \<open>The POST handler: Begin when \<open>!sessionId\<close>, Continue otherwise.\<close>

definition post_handler :: "call_env \<Rightarrow> string option \<Rightarrow> gateway \<Rightarrow> response \<times> gateway" where
  "post_handler env sessionId g =
     (case sessionId of
        None \<Rightarrow> post_begin env g
      | Some s \<Rightarrow> (if s = [] then post_begin env g else post_continue env s g))"

subsection \<open>End: the DELETE handler\<close>

text \<open>
  The functions below return \<open>Some err\<close> when the promise rejects with \<open>err\<close> and
  \<open>None\<close> when it resolves. An \<open>await\<close> that rejects skips the rest of the function.
\<close>

text \<open>
  \<open>cleanupEndpointIfUnused\<close>. A member of \<open>Object.prototype\<close> found under the endpoint
  name is truthy and has no \<open>cleanup\<close>: the call throws a \<open>TypeError\<close>.
\<close>

definition cleanupEndpointIfUnused :: "call_env \<Rightarrow> gateway \<Rightarrow> json option \<times> gateway" where
  "cleanupEndpointIfUnused env g =
     (if js_le_zero (count_or_zero g (endpointName env))
      then (case js_get (metamcpServers g) (endpointName env) of
              Undefined \<Rightarrow> (None, g)
            | Inherited \<Rightarrow> (Some type_error, g)
            | Own inst \<Rightarrow>
                (let g1 = g\<lparr> events := events g @ [Teardown inst] \<rparr>
                 in case cleanup_throws env of
                      Some err \<Rightarrow> (Some err, g1)
                    | None \<Rightarrow>
                        (None, g1\<lparr> metamcpServers := js_delete (endpointName env) (metamcpServers g1),
                                   endpointSessionCounts :=
                                     js_delete (endpointName env) (endpointSessionCounts g1) \<rparr>)))
      else (None, g))"

text \<open>
  The first part of \<open>cleanupSession\<close>: a registered transport is removed from
  \<open>transports\<close> and then closed; a session id under which nothing is found is skipped.
  A member of \<open>Object.prototype\<close> found under the session id is truthy, the \<open>delete\<close>
  removes nothing, and \<open>transport.close()\<close> throws a \<open>TypeError\<close>.
\<close>

definition close_transport :: "call_env \<Rightarrow> string \<Rightarrow> gateway \<Rightarrow> json option \<times> gateway" where
  "close_transport env sessionId g =
     (case js_get (transports g) sessionId of
        Undefined \<Rightarrow> (None, g)
      | Inherited \<Rightarrow> (Some type_error, g)
      | Own t \<Rightarrow>
          (close_throws env,
           g\<lparr> transports := js_delete sessionId (transports g),
              events := events g @ [Close t] \<rparr>))"

text \<open>
  \<open>if (endpointSessionCounts[endpointName] > 0) endpointSessionCounts[endpointName]--\<close>.
  The test is false for \<open>undefined\<close> and for everything that is not a number, so the
  decrement only meets an own property holding a number.
\<close>

definition decrement_count :: "call_env \<Rightarrow> gateway \<Rightarrow> gateway" where
  "decrement_count env g =
     (case js_get (endpointSessionCounts g) (endpointName env) of
        Own (Num c) \<Rightarrow>
          (if c > 0
           then g\<lparr> endpointSessionCounts :=
                     js_put (endpointName env) (Num (c - 1)) (endpointSessionCounts g) \<rparr>
           else g)
      | _ \<Rightarrow> g)"

text \<open>
  \<open>cleanupSession\<close>: close the transport, decrement the count, call
  \<open>cleanupSessionConnections(sessionId)\<close>, then \<open>cleanupEndpointIfUnused\<close>.
\<close>

definition cleanupSession :: "call_env \<Rightarrow> string \<Rightarrow> gateway \<Rightarrow> json option \<times> gateway" where
  "cleanupSession env sessionId g =
     (case close_transport env sessionId g of
        (Some err, g1) \<Rightarrow> (Some err, g1)
      | (None, g1) \<Rightarrow>
          (let g2 = decrement_count env g1;
               g3 = g2\<lparr> events := events g2 @ [SessionCleanup sessionId] \<rparr>
           in case cleanupSessionConnections_throws env of
                Some err \<Rightarrow> (Some err, g3)
              | None \<Rightarrow> cleanupEndpointIfUnused env g3))"

text \<open>
  The DELETE handler: 400 when the session id header is absent or empty, 200 with an
  empty body when \<open>cleanupSession\<close> resolves, \<open>res.status(500).json(error)\<close> when it
  rejects.
\<close>

definition delete_handler :: "call_env \<Rightarrow> string option \<Rightarrow> gateway \<Rightarrow> response \<times> gateway" where
  "delete_handler env sessionId g =
     (case sessionId of
        None \<Rightarrow> (Response 400 (Text ''Missing sessionId''), g)
      | Some s \<Rightarrow>
          (if s = [] then (Response 400 (Text ''Missing sessionId''), g)
           else (case cleanupSession env s g of
                   (Some err, g') \<Rightarrow> (Response 500 (Json err), g')
                 | (None, g') \<Rightarrow> (Response 200 Empty, g'))))"

subsection \<open>Requests served one after another\<close>

text \<open>
  A request to the route \<open>/:endpoint_name/mcp\<close> that has passed the two middlewares:
  its verb, what it brings with it, and its \<open>mcp-session-id\<close> header.
\<close>

datatype request_line =
    GET call_env "string option"
  | POST call_env "string option"
  | DELETE call_env "string option"

fun serve :: "request_line \<Rightarrow> gateway \<Rightarrow> response \<times> gateway" where
  "serve (GET env sessionId) g = get_handler env sessionId g"
| "serve (POST env sessionId) g = post_handler env sessionId g"
| "serve (DELETE env sessionId) g = delete_handler env sessionId g"

fun serve_all :: "request_line list \<Rightarrow> gateway \<Rightarrow> gateway" where
  "serve_all [] g = g"
| "serve_all (r # rs) g = serve_all rs (snd (serve r g))"

text \<open>
  The requests that end the session \<open>sid\<close> or replace its transport: a DELETE carrying
  \<open>sid\<close>, and a Begin for which \<open>randomUUID()\<close> returns \<open>sid\<close> again.
\<close>

fun ends_or_replaces :: "string \<Rightarrow> request_line \<Rightarrow> bool" where
  "ends_or_replaces sid (GET env sessionId) = False"
| "ends_or_replaces sid (POST env sessionId) = (\<not> truthy sessionId \<and> randomUUID env = sid)"
| "ends_or_replaces sid (DELETE env sessionId) = (sessionId = Some sid)"

subsection \<open>The invariant of the session counts\<close>

text \<open>No number in \<open>endpointSessionCounts\<close> is negative.\<close>

definition counts_nonneg :: "gateway \<Rightarrow> bool" where
  "counts_nonneg g = (\<forall>ep c. endpointSessionCounts g ep = Some (Num c) \<longrightarrow> 0 \<le> c)"

section \<open>Example inputs\<close>

text \<open>A request environment in which no external call throws.\<close>

definition env_ok :: "string \<Rightarrow> string \<Rightarrow> string \<Rightarrow> call_env" where
  "env_ok ns ep sid =
     \<lparr> namespaceUuid = ns, endpointName = ep, randomUUID = sid,
       createServer_throws = None, newTransport_throws = None, connect_throws = None,
       handleRequest_throws = None, close_throws = None,
       cleanupSessionConnections_throws = None, cleanup_throws = None \<rparr>"

definition leaky_error :: json where
  "leaky_error = JObject [(''code'', JString ''ECONNREFUSED''), (''address'', JString ''10.0.0.5:5432'')]"

definition secure_endpoint :: endpoint where
  "secure_endpoint = \<lparr> namespace_uuid = ''ns'', enable_api_key_auth = True, use_query_param_auth = False \<rparr>"

definition open_endpoint :: endpoint where
  "open_endpoint = \<lparr> namespace_uuid = ''ns'', enable_api_key_auth = False, use_query_param_auth = False \<rparr>"

definition query_only_request :: request where
  "query_only_request = \<lparr> authorization = None, x_api_key = None, query_api_key = Some ''X'',
                            query_apikey = None, mcp_session_id = None \<rparr>"

definition accept_all :: "string \<Rightarrow> json + validation" where
  "accept_all k = Inr \<lparr> valid = True, user_id = Some ''u'', key_uuid = Some ''k'' \<rparr>"

definition reject_all :: "string \<Rightarrow> json + validation" where
  "reject_all k = Inr \<lparr> valid = False, user_id = None, key_uuid = None \<rparr>"

text \<open>
  The registry after one successful Begin on endpoint \<open>e\<close> (session \<open>s1\<close>), and request
  environments in which one external call throws \<open>leaky_error\<close>.
\<close>

definition one_session :: gateway where
  "one_session = snd (post_handler (env_ok ''ns'' ''e'' ''s1'') None gateway0)"

definition connect_fails :: call_env where
  "connect_fails = (env_ok ''ns'' ''e'' ''s1'') \<lparr> connect_throws := Some leaky_error \<rparr>"

definition factory_fails :: call_env where
  "factory_fails = (env_ok ''ns'' ''e'' ''s1'') \<lparr> createServer_throws := Some leaky_error \<rparr>"

definition transport_fails :: call_env where
  "transport_fails = (env_ok ''ns'' ''e'' ''s1'') \<lparr> newTransport_throws := Some leaky_error \<rparr>"

definition dispatch_fails :: call_env where
  "dispatch_fails = (env_ok ''ns'' ''e'' ''s2'') \<lparr> handleRequest_throws := Some leaky_error \<rparr>"

definition teardown_fails :: call_env where
  "teardown_fails = (env_ok ''ns'' ''e'' ''s2'') \<lparr> cleanup_throws := Some leaky_error \<rparr>"

text \<open>
  Two query functions: \<open>flaky\<close> rejects twice and then resolves to 42; \<open>failing\<close>
  rejects every time, with an error that tells the invocations apart.
\<close>

definition flaky :: "nat \<Rightarrow> string + int" where
  "flaky k = (if k < 2 then Inl ''busy'' else Inr 42)"

definition failing :: "nat \<Rightarrow> string + int" where
  "failing k = Inl (''down'' @ replicate k CHR ''!'')"

text \<open>
  Requests served after the Begin of session \<open>s1\<close>: another Begin on the same endpoint
  (session \<open>s2\<close>), a GET and a DELETE for \<open>s2\<close>, a Begin on another endpoint, and a
  POST carrying \<open>s1\<close>.
\<close>

definition other_traffic :: "request_line list" where
  "other_traffic =
     [POST (env_ok ''ns'' ''e'' ''s2'') None,
      GET (env_ok ''ns'' ''e'' ''s9'') (Some ''s2''),
      POST (env_ok ''ns'' ''f'' ''s3'') None,
      DELETE (env_ok ''ns'' ''e'' ''s9'') (Some ''s2''),
      POST (env_ok ''ns'' ''e'' ''s9'') (Some ''s1'')]"

section \<open>retryDbQuery: number of invocations and result\<close>

lemma retry_loop_first_success:
  assumes "n \<le> 2 ^ 53"
  shows "c \<le> k \<Longrightarrow> k \<le> c + nat (n - a) \<Longrightarrow> q k = Inr v \<Longrightarrow>
         (\<forall>j. c \<le> j \<and> j < k \<longrightarrow> isl (q j)) \<Longrightarrow>
         retry_loop q n a c = Some (Inr v, Suc k)"
proof (induction "k - c" arbitrary: a c)
  case 0
  then have "k = c" by simp
  with 0 show ?case by (simp add: retry_loop.simps [of q n a c])
next
  case (Suc d)
  then have lt: "c < k" by simp
  with Suc.prems have "isl (q c)" by simp
  then obtain err where err: "q c = Inl err" by (cases "q c") auto
  from lt Suc.prems(2) have an: "a < n" by (cases "a < n") auto
  with assms have inc: "js_increment a = a + 1" by (simp add: js_increment_def)
  have "retry_loop q n (a + 1) (Suc c) = Some (Inr v, Suc k)"
  proof (rule Suc.hyps(1))
    show "d = k - Suc c" using Suc.hyps(2) by simp
    show "Suc c \<le> k" using lt by simp
    show "k \<le> Suc c + nat (n - (a + 1))" using Suc.prems(2) an by (simp add: nat_diff_distrib)
    show "q k = Inr v" by (rule Suc.prems(3))
    show "\<forall>j. Suc c \<le> j \<and> j < k \<longrightarrow> isl (q j)" using Suc.prems(4) by simp
  qed
  then show ?case using err an inc by (simp add: retry_loop.simps [of q n a c])
qed

lemma retry_loop_all_fail:
  assumes "n \<le> 2 ^ 53"
  shows "(\<forall>j. c \<le> j \<and> j \<le> c + nat (n - a) \<longrightarrow> isl (q j)) \<Longrightarrow>
         retry_loop q n a c = Some (q (c + nat (n - a)), Suc (c + nat (n - a)))"
proof (induction "nat (n - a)" arbitrary: a c)
  case 0
  then have ge: "a \<ge> n" by simp
  from 0 have "isl (q c)" by simp
  then obtain err where err: "q c = Inl err" by (cases "q c") auto
  from 0(1) [symmetric] err ge show ?case by (simp add: retry_loop.simps [of q n a c])
next
  case (Suc m)
  then have an: "a < n" by simp
  with assms have inc: "js_increment a = a + 1" by (simp add: js_increment_def)
  from Suc.prems have "isl (q c)" by simp
  then obtain err where err: "q c = Inl err" by (cases "q c") auto
  have m: "m = nat (n - (a + 1))" using Suc.hyps(2) by simp
  have eq: "Suc c + nat (n - (a + 1)) = c + nat (n - a)" using Suc.hyps(2) m by simp
  have "retry_loop q n (a + 1) (Suc c)
        = Some (q (Suc c + nat (n - (a + 1))), Suc (Suc c + nat (n - (a + 1))))"
  proof (rule Suc.hyps(1) [OF m])
    show "\<forall>j. Suc c \<le> j \<and> j \<le> Suc c + nat (n - (a + 1)) \<longrightarrow> isl (q j)"
      using Suc.prems eq by simp
  qed
  then have "retry_loop q n (a + 1) (Suc c)
        = Some (q (c + nat (n - a)), Suc (c + nat (n - a)))"
    by (simp only: eq)
  then show ?case using err an inc by (simp add: retry_loop.simps [of q n a c])
qed

text \<open>
  Claim C10, as amended. Let \<open>r\<close> be the value of \<open>retries\<close> (10 when absent), an integer
  not above \<open>2 ^ 53\<close>. Then \<open>retryDbQuery\<close> returns, having invoked the query at most
  \<open>max 0 r + 1\<close> times. When one of the first \<open>max 0 r + 1\<close> invocations succeeds, it
  returns the value of the first one that does, right after that invocation. When all
  of them throw, it makes exactly \<open>max 0 r + 1\<close> invocations and rethrows the error of
  the last. A value it returns is always the value of the first invocation that
  succeeded.
\<close>

theorem retryDbQuery_attempts:
  assumes "retries_or_default options \<le> 2 ^ 53"
  shows
  "(\<exists>res calls. retryDbQuery query options = Some (res, calls)
        \<and> int calls \<le> max 0 (retries_or_default options) + 1)
   \<and> (\<forall>k v. k \<le> nat (retries_or_default options) \<and> query k = Inr v
          \<and> (\<forall>j<k. isl (query j)) \<longrightarrow>
          retryDbQuery query options = Some (Inr v, Suc k))
   \<and> ((\<forall>k \<le> nat (retries_or_default options). isl (query k)) \<longrightarrow>
          retryDbQuery query options
          = Some (query (nat (retries_or_default options)),
                  Suc (nat (retries_or_default options))))
   \<and> (\<forall>v calls. retryDbQuery query options = Some (Inr v, calls) \<longrightarrow>
          (\<exists>k. query k = Inr v \<and> (\<forall>j<k. isl (query j)) \<and> calls = Suc k))"
proof -
  let ?r = "retries_or_default options"
  let ?N = "nat ?r"
  have first: "retryDbQuery query options = Some (Inr v, Suc k)"
    if "k \<le> ?N" "query k = Inr v" "\<forall>j<k. isl (query j)" for k v
    using retry_loop_first_success [OF assms, of 0 k 0 query v] that
    by (simp add: retryDbQuery_def)
  have fail: "retryDbQuery query options = Some (query ?N, Suc ?N)"
    if "\<forall>k \<le> ?N. isl (query k)"
    using retry_loop_all_fail [OF assms, of 0 0 query] that
    by (simp add: retryDbQuery_def)
  have cases: "(\<forall>k \<le> ?N. isl (query k))
               \<or> (\<exists>k v. k \<le> ?N \<and> query k = Inr v \<and> (\<forall>j<k. isl (query j)))"
  proof (cases "\<forall>k \<le> ?N. isl (query k)")
    case True
    then show ?thesis by simp
  next
    case False
    then have ex: "\<exists>k. k \<le> ?N \<and> \<not> isl (query k)" by simp
    define k where "k = (LEAST k. k \<le> ?N \<and> \<not> isl (query k))"
    have k: "k \<le> ?N \<and> \<not> isl (query k)"
      unfolding k_def using ex by (rule LeastI_ex)
    have least: "isl (query j)" if "j < k" for j
    proof (rule ccontr)
      assume "\<not> isl (query j)"
      with that k have "j \<le> ?N \<and> \<not> isl (query j)" by simp
      then have "k \<le> j" unfolding k_def by (rule Least_le)
      with that show False by simp
    qed
    from k obtain v where "query k = Inr v" by (cases "query k") auto
    with k least show ?thesis by blast
  qed
  have bound: "\<exists>res calls. retryDbQuery query options = Some (res, calls)
        \<and> int calls \<le> max 0 ?r + 1"
    using cases
  proof
    assume "\<forall>k \<le> ?N. isl (query k)"
    from fail [OF this] show ?thesis by simp
  next
    assume "\<exists>k v. k \<le> ?N \<and> query k = Inr v \<and> (\<forall>j<k. isl (query j))"
    then obtain k v where kv: "k \<le> ?N" "query k = Inr v" "\<forall>j<k. isl (query j)" by blast
    from first [OF this] kv(1) show ?thesis by simp
  qed
  have returned: "\<exists>k. query k = Inr v \<and> (\<forall>j<k. isl (query j)) \<and> calls = Suc k"
    if res: "retryDbQuery query options = Some (Inr v, calls)" for v calls
    using cases
  proof
    assume a: "\<forall>k \<le> ?N. isl (query k)"
    from fail [OF a] res have "query ?N = Inr v" by simp
    with a show ?thesis by (metis isl_def le_refl sum.disc(2))
  next
    assume "\<exists>k w. k \<le> ?N \<and> query k = Inr w \<and> (\<forall>j<k. isl (query j))"
    then obtain k w where kv: "k \<le> ?N" "query k = Inr w" "\<forall>j<k. isl (query j)" by blast
    from first [OF this] res have "w = v" "calls = Suc k" by simp_all
    with kv show ?thesis by blast
  qed
  from bound first fail returned show ?thesis by blast
qed

theorem retryDbQuery_attempts_witness:
  "retryDbQuery flaky \<lparr> retries = Some 3, delayMs = None \<rparr> = Some (Inr 42, 3)
   \<and> flaky 2 = Inr 42 \<and> list_all (\<lambda>j. isl (flaky j)) [0, 1]
   \<and> list_all (\<lambda>k. isl (failing k)) [0, 1, 2, 3]
   \<and> retryDbQuery failing \<lparr> retries = Some 3, delayMs = None \<rparr> = Some (Inl ''down!!!'', 4)
   \<and> (\<exists>res calls. retryDbQuery failing \<lparr> retries = Some 3, delayMs = None \<rparr> = Some (res, calls)
         \<and> int calls \<le> max 0 3 + 1)"
proof -
  let ?o = "\<lparr> retries = Some 3, delayMs = None \<rparr>"
  have r: "retries_or_default ?o = 3" by (simp add: retries_or_default_def)
  then have le: "retries_or_default ?o \<le> 2 ^ 53" by simp
  have two: "(2::nat) \<le> nat (retries_or_default ?o)" using r by simp
  have s: "flaky 2 = Inr 42" by (simp add: flaky_def)
  have b: "\<forall>j<2. isl (flaky j)" by (simp add: flaky_def)
  have b': "list_all (\<lambda>j. isl (flaky j)) [0, 1]" by (simp add: flaky_def)
  have l: "list_all (\<lambda>k. isl (failing k)) [0, 1, 2, 3]" by (simp add: failing_def)
  have f: "\<forall>k \<le> nat (retries_or_default ?o). isl (failing k)" by (simp add: failing_def)
  from retryDbQuery_attempts [OF le, of flaky] two s b
  have a: "retryDbQuery flaky ?o = Some (Inr 42, Suc 2)" by blast
  from retryDbQuery_attempts [OF le, of failing] f
  have d: "retryDbQuery failing ?o
           = Some (failing (nat (retries_or_default ?o)), Suc (nat (retries_or_default ?o)))"
    by blast
  have e: "failing (nat 3) = Inl ''down!!!''" by (simp add: failing_def eval_nat_numeral)
  from retryDbQuery_attempts [OF le, of failing]
  have g: "\<exists>res calls. retryDbQuery failing ?o = Some (res, calls)
         \<and> int calls \<le> max 0 (retries_or_default ?o) + 1" by blast
  show ?thesis using a s b' l d e g r by simp
qed

text \<open>
  Claim C10 as stated fails for a negative \<open>retries\<close>: with \<open>retries = -1\<close> the query
  is still invoked once, which is more than \<open>retries + 1 = 0\<close> times.
\<close>

theorem retryDbQuery_negative_retries_counterexample:
  "(case retryDbQuery failing \<lparr> retries = Some (- 1), delayMs = None \<rparr> of
      Some (res, calls) \<Rightarrow> res = Inl ''down'' \<and> calls = 1 \<and> \<not> int calls \<le> (- 1) + 1
    | None \<Rightarrow> False)"
  by (simp add: retryDbQuery_def retries_or_default_def retry_loop.simps failing_def)

section \<open>The authentication gate\<close>

text \<open>
  Claim C5. On an endpoint with \<open>enable_api_key_auth\<close> set and \<open>use_query_param_auth\<close>
  not set, a request with no \<open>Authorization: Bearer\<close> header and no \<open>X-API-Key\<close>
  header is answered 401 "Authentication required", whatever its query parameters are,
  and the credential validator is not called.
\<close>

theorem query_param_ignored_when_disabled:
  assumes "enable_api_key_auth ep" and "\<not> use_query_param_auth ep"
    and "\<forall>h. authorization req = Some h \<longrightarrow> take 7 h \<noteq> ''Bearer ''"
    and "x_api_key req = None"
  shows "authenticateApiKey validateApiKey (Some ep) req =
           (Reply 401 (JObject
              [(''error'', JString ''Authentication required''),
               (''message'', JString ''API key required in one of: Authorization header (Bearer token), X-API-Key header'')]),
            [])"
proof -
  have "header_key req = None"
    using assms(3,4) by (cases "authorization req") (simp_all add: header_key_def)
  then show ?thesis
    using assms(1,2) by (simp add: authenticateApiKey_def auth_required_reply_def)
qed

theorem query_param_ignored_when_disabled_witness:
  "authenticateApiKey accept_all (Some secure_endpoint) query_only_request =
     (Reply 401 (JObject
        [(''error'', JString ''Authentication required''),
         (''message'', JString ''API key required in one of: Authorization header (Bearer token), X-API-Key header'')]),
      [])"
  by (rule query_param_ignored_when_disabled)
     (simp_all add: secure_endpoint_def query_only_request_def)

text \<open>
  Claim C6. On an endpoint with \<open>enable_api_key_auth\<close> not set, every request passes
  the middleware (\<open>next()\<close>) with no identity attached, and the credential validator is
  not called.
\<close>

theorem auth_disabled_passes:
  "\<not> enable_api_key_auth ep \<Longrightarrow>
   authenticateApiKey validateApiKey (Some ep) req = (Next None None, [])"
  by (simp add: authenticateApiKey_def)

theorem auth_disabled_passes_witness:
  "authenticateApiKey reject_all (Some open_endpoint) query_only_request = (Next None None, [])"
  by (rule auth_disabled_passes) (simp add: open_endpoint_def)

section \<open>Lookups in the tables\<close>

lemma proto_is_member: "''__proto__'' \<in> set object_prototype_members"
  by (simp add: object_prototype_members_def)

lemma js_get_ordinary:
  "k \<notin> set object_prototype_members \<Longrightarrow>
   js_get own k = (case own k of Some v \<Rightarrow> Own v | None \<Rightarrow> Undefined)"
  using proto_is_member by (auto simp: js_get_def split: option.splits)

lemma js_get_Own: "js_get own k = Own v \<longleftrightarrow> k \<noteq> ''__proto__'' \<and> own k = Some v"
  by (auto simp: js_get_def split: option.splits)

lemma js_get_Undefined:
  "js_get own k = Undefined \<longleftrightarrow> k \<notin> set object_prototype_members \<and> own k = None"
  using proto_is_member by (auto simp: js_get_def split: option.splits)

section \<open>The instance cache under concurrent Begin requests\<close>

text \<open>
  Claim C1 does not hold of the code. Two Begin requests for the endpoint \<open>shared\<close>,
  neither of which finds a cached instance: the first is suspended in \<open>createServer\<close>
  when the second starts, so the second calls \<open>createServer\<close> as well. Two instances
  (0 and 1) are created, the sessions are connected to different instances, and the
  cache keeps only instance 1.
\<close>

theorem concurrent_begin_calls_factory_twice:
  "(case run_schedule [env_ok ''ns'' ''shared'' ''s1'', env_ok ''ns'' ''shared'' ''s2'']
           [0, 1, 0, 0, 0, 0, 1, 1, 1, 1] (gateway0, [BeginStart, BeginStart]) of
      (g, ts) \<Rightarrow>
        ts = [Finished (Forwarded 2), Finished (Forwarded 3)]
        \<and> events g = [FactoryCall ''ns'' ''s1'' 0, FactoryCall ''ns'' ''s2'' 1,
                       NewTransport 2, Connect 0 2, HandleRequest 2,
                       NewTransport 3, Connect 1 3, HandleRequest 3]
        \<and> metamcpServers g ''shared'' = Some 1
        \<and> endpointSessionCounts g ''shared'' = Some (Num 2)
        \<and> transports g ''s1'' = Some 2 \<and> transports g ''s2'' = Some 3)"
  by (simp add: env_ok_def gateway0_def count_or_zero_def js_get_def js_put_def
        object_prototype_members_def)

section \<open>The session count\<close>

text \<open>
  The numbers in the table never become negative: every step of a Begin request and
  every \<open>cleanupSession\<close> preserves \<open>counts_nonneg\<close>.
\<close>

lemma count_or_zero_nonneg: "counts_nonneg g \<Longrightarrow> count_or_zero g ep = Num c \<Longrightarrow> 0 \<le> c"
  by (auto simp: counts_nonneg_def count_or_zero_def js_get_def
      split: option.splits if_splits)

lemma begin_step_counts_nonneg:
  assumes "counts_nonneg g"
  shows "counts_nonneg (fst (begin_step env (g, t)))"
proof (cases "(env, (g, t))" rule: begin_step.cases)
  case (4 env' g' h)
  have "0 \<le> c" if "js_plus_one (count_or_zero g (endpointName env)) = Num c" for c
    using that count_or_zero_nonneg [OF assms, of "endpointName env"]
    by (cases "count_or_zero g (endpointName env)") auto
  with 4 assms show ?thesis
    by (cases h)
       (auto simp: counts_nonneg_def Let_def js_put_def split: option.splits if_splits)
qed (use assms in \<open>auto simp: counts_nonneg_def split: option.splits slot.splits\<close>)

lemma counts_nonneg_cong:
  "endpointSessionCounts g' = endpointSessionCounts g \<Longrightarrow> counts_nonneg g \<Longrightarrow> counts_nonneg g'"
  by (simp add: counts_nonneg_def)

lemma close_transport_counts:
  "endpointSessionCounts (snd (close_transport env sid g)) = endpointSessionCounts g"
  by (cases "js_get (transports g) sid") (simp_all add: close_transport_def)

lemma decrement_count_nonneg:
  assumes "counts_nonneg g"
  shows "counts_nonneg (decrement_count env g)"
proof (cases "js_get (endpointSessionCounts g) (endpointName env)")
  case (Own c)
  show ?thesis
  proof (cases c)
    case (Num n)
    with Own assms show ?thesis
      by (auto simp: decrement_count_def counts_nonneg_def js_put_def)
  qed (use Own assms in \<open>simp_all add: decrement_count_def\<close>)
qed (use assms in \<open>simp_all add: decrement_count_def\<close>)

lemma cleanupEndpointIfUnused_nonneg:
  assumes "counts_nonneg g"
  shows "counts_nonneg (snd (cleanupEndpointIfUnused env g))"
proof (cases "js_get (metamcpServers g) (endpointName env)")
  case (Own inst)
  with assms show ?thesis
    by (cases "cleanup_throws env")
       (auto simp: cleanupEndpointIfUnused_def counts_nonneg_def js_delete_def Let_def)
qed (use assms in \<open>simp_all add: cleanupEndpointIfUnused_def\<close>)

lemma cleanupSession_counts_nonneg:
  assumes "counts_nonneg g"
  shows "counts_nonneg (snd (cleanupSession env sid g))"
proof -
  obtain r g1 where c: "close_transport env sid g = (r, g1)" by (cases "close_transport env sid g")
  have g1: "counts_nonneg g1"
    using close_transport_counts [of env sid g] assms c by (simp add: counts_nonneg_def)
  let ?g3 = "(decrement_count env g1)
               \<lparr> events := events (decrement_count env g1) @ [SessionCleanup sid] \<rparr>"
  have g3: "counts_nonneg ?g3"
    using decrement_count_nonneg [OF g1, of env] by (simp add: counts_nonneg_def)
  show ?thesis
  proof (cases r)
    case (Some err)
    with c g1 show ?thesis by (simp add: cleanupSession_def)
  next
    case None
    show ?thesis
    proof (cases "cleanupSessionConnections_throws env")
      case (Some err)
      with None c g3 show ?thesis by (simp add: cleanupSession_def Let_def)
    next
      case None': None
      from cleanupEndpointIfUnused_nonneg [OF g3, of env] None None' c
      show ?thesis by (simp add: cleanupSession_def Let_def)
    qed
  qed
qed

text \<open>
  Claim C3 does not hold of the code. After one Begin on endpoint \<open>e\<close> (session \<open>s1\<close>),
  a DELETE on \<open>e\<close> with a session id that was never issued decrements the count of
  \<open>e\<close> to 0 and tears the instance down, while \<open>s1\<close> is still registered: the count
  no longer equals the number of live sessions.
\<close>

theorem delete_unknown_session_tears_down_live_instance:
  "(case post_handler (env_ok ''ns'' ''e'' ''s1'') None gateway0 of
      (r1, g1) \<Rightarrow>
        (case delete_handler (env_ok ''ns'' ''e'' ''s9'') (Some ''unknown'') g1 of
           (r2, g2) \<Rightarrow>
             r1 = Forwarded 1 \<and> transports g1 ''s1'' = Some 1
             \<and> endpointSessionCounts g1 ''e'' = Some (Num 1)
             \<and> r2 = Response 200 Empty
             \<and> transports g2 ''s1'' = Some 1
             \<and> count_or_zero g2 ''e'' = Num 0
             \<and> metamcpServers g2 ''e'' = None
             \<and> events g2 = [FactoryCall ''ns'' ''s1'' 0, NewTransport 1, Connect 0 1,
                             HandleRequest 1, SessionCleanup ''unknown'', Teardown 0]))"
  by (simp add: post_handler_def post_begin_def delete_handler_def cleanupSession_def
        close_transport_def decrement_count_def cleanupEndpointIfUnused_def
        env_ok_def gateway0_def count_or_zero_def js_get_def js_put_def js_delete_def
        object_prototype_members_def)

section \<open>Bodies of internal-failure responses\<close>

text \<open>
  Claim C8 does not hold of the code. The GET, POST and DELETE handlers answer a thrown
  value with \<open>res.status(500).json(error)\<close>: the body is the thrown value itself (here
  an error object carrying a connection address). The middleware \<open>lookupEndpoint\<close>, in
  the same file, answers 500 with a fixed category and message.
\<close>

theorem handlers_reply_500_with_thrown_value:
  "transports one_session ''s1'' = Some 1
   \<and> fst (get_handler dispatch_fails (Some ''s1'') one_session) = Response 500 (Json leaky_error)
   \<and> fst (post_handler dispatch_fails (Some ''s1'') one_session) = Response 500 (Json leaky_error)
   \<and> fst (post_handler connect_fails None gateway0) = Response 500 (Json leaky_error)
   \<and> fst (delete_handler teardown_fails (Some ''s1'') one_session) = Response 500 (Json leaky_error)
   \<and> lookupEndpoint (\<lambda>name. Inl leaky_error) ''e''
       = Inl (Response 500 (Json (JObject
               [(''error'', JString ''Internal server error''),
                (''message'', JString ''Failed to lookup endpoint'')])))"
  by (simp add: one_session_def post_handler_def post_begin_def post_continue_def get_handler_def
        forward_def delete_handler_def cleanupSession_def close_transport_def decrement_count_def
        cleanupEndpointIfUnused_def lookupEndpoint_def dispatch_fails_def connect_fails_def
        teardown_fails_def env_ok_def gateway0_def count_or_zero_def js_get_def js_put_def
        js_delete_def object_prototype_members_def)

section \<open>Keys that name members of Object.prototype\<close>

text \<open>
  A session id that names a member of \<open>Object.prototype\<close> is answered 500 on every
  verb, with nothing registered under it. A Begin on an endpoint named \<open>constructor\<close>
  never calls the factory: it takes the inherited member for a cached instance,
  registers the transport, turns the count into a string and answers 500.
\<close>

lemma inherited_session_id:
  "get_handler (env_ok ''ns'' ''e'' ''s9'') (Some ''constructor'') gateway0
     = (Response 500 (Json type_error), gateway0)"
  "post_handler (env_ok ''ns'' ''e'' ''s9'') (Some ''toString'') gateway0
     = (Response 500 (Json type_error), gateway0)"
  "delete_handler (env_ok ''ns'' ''e'' ''s9'') (Some ''constructor'') gateway0
     = (Response 500 (Json type_error), gateway0)"
  "delete_handler (env_ok ''ns'' ''e'' ''s9'') (Some ''__proto__'') gateway0
     = (Response 500 (Json type_error), gateway0)"
  by (simp_all add: get_handler_def post_handler_def post_continue_def delete_handler_def
        cleanupSession_def close_transport_def js_get_def object_prototype_members_def
        gateway0_def)

lemma inherited_endpoint_name:
  "post_handler (factory_fails \<lparr> endpointName := ''constructor'' \<rparr>) None gateway0
     = (Response 500 (Json type_error),
        gateway0 \<lparr> transports := [''s1'' \<mapsto> 0],
                   endpointSessionCounts := [''constructor'' \<mapsto> Appended ''constructor'' 1],
                   fresh := 1, events := [NewTransport 0] \<rparr>)"
  by (simp add: post_handler_def post_begin_def factory_fails_def env_ok_def gateway0_def
        count_or_zero_def js_get_def js_put_def object_prototype_members_def)

section \<open>End on a session that is not registered\<close>

lemma decrement_count_keeps:
  "transports (decrement_count env g) = transports g"
  "metamcpServers (decrement_count env g) = metamcpServers g"
proof -
  have "transports (decrement_count env g) = transports g
        \<and> metamcpServers (decrement_count env g) = metamcpServers g"
  proof (cases "js_get (endpointSessionCounts g) (endpointName env)")
    case (Own c)
    then show ?thesis by (cases c) (simp_all add: decrement_count_def)
  qed (simp_all add: decrement_count_def)
  then show "transports (decrement_count env g) = transports g"
    and "metamcpServers (decrement_count env g) = metamcpServers g" by simp_all
qed

lemma cleanupEndpointIfUnused_transports:
  "transports (snd (cleanupEndpointIfUnused env g)) = transports g"
proof (cases "js_get (metamcpServers g) (endpointName env)")
  case (Own inst)
  then show ?thesis
    by (cases "cleanup_throws env") (simp_all add: cleanupEndpointIfUnused_def Let_def)
qed (simp_all add: cleanupEndpointIfUnused_def)

lemma cleanupEndpointIfUnused_resolves:
  assumes "endpointName env \<notin> set object_prototype_members" and "cleanup_throws env = None"
  shows "fst (cleanupEndpointIfUnused env g) = None"
proof (cases "metamcpServers g (endpointName env)")
  case None
  with assms show ?thesis by (simp add: cleanupEndpointIfUnused_def js_get_ordinary)
next
  case (Some inst)
  with assms show ?thesis by (simp add: cleanupEndpointIfUnused_def js_get_ordinary Let_def)
qed

lemma cleanupSession_transports:
  "transports (snd (cleanupSession env s g)) = transports g
   \<or> transports (snd (cleanupSession env s g)) = js_delete s (transports g)"
proof -
  obtain r g1 where c: "close_transport env s g = (r, g1)" by (cases "close_transport env s g")
  have g1: "transports g1 = transports g \<or> transports g1 = js_delete s (transports g)"
    using c by (cases "js_get (transports g) s") (auto simp: close_transport_def)
  let ?g3 = "(decrement_count env g1)
               \<lparr> events := events (decrement_count env g1) @ [SessionCleanup s] \<rparr>"
  have g3: "transports ?g3 = transports g1" by (simp add: decrement_count_keeps)
  show ?thesis
  proof (cases r)
    case (Some err)
    with c g1 show ?thesis by (simp add: cleanupSession_def)
  next
    case None
    show ?thesis
    proof (cases "cleanupSessionConnections_throws env")
      case (Some err)
      with None c g1 g3 show ?thesis by (simp add: cleanupSession_def Let_def)
    next
      case None': None
      have "snd (cleanupSession env s g) = snd (cleanupEndpointIfUnused env ?g3)"
        using None None' c by (simp add: cleanupSession_def Let_def)
      with cleanupEndpointIfUnused_transports [of env ?g3] g1 g3 show ?thesis by simp
    qed
  qed
qed

lemma cleanupSession_unknown:
  assumes "js_get (transports g) sid = Undefined"
    and "endpointName env \<notin> set object_prototype_members"
    and "cleanupSessionConnections_throws env = None" and "cleanup_throws env = None"
  shows "fst (cleanupSession env sid g) = None"
    and "transports (snd (cleanupSession env sid g)) = transports g"
proof -
  let ?g3 = "(decrement_count env g)
               \<lparr> events := events (decrement_count env g) @ [SessionCleanup sid] \<rparr>"
  have c: "close_transport env sid g = (None, g)" using assms(1) by (simp add: close_transport_def)
  have eq: "cleanupSession env sid g = cleanupEndpointIfUnused env ?g3"
    using c assms(3) by (simp add: cleanupSession_def Let_def)
  show "fst (cleanupSession env sid g) = None"
    unfolding eq by (rule cleanupEndpointIfUnused_resolves [OF assms(2,4)])
  show "transports (snd (cleanupSession env sid g)) = transports g"
    unfolding eq by (simp add: cleanupEndpointIfUnused_transports decrement_count_keeps)
qed

lemma cleanupSession_removes:
  assumes "sid \<notin> set object_prototype_members"
  shows "transports (snd (cleanupSession env sid g)) sid = None"
proof (cases "transports g sid")
  case None
  with cleanupSession_transports [of env sid g] show ?thesis by (auto simp: js_delete_def)
next
  case (Some t)
  then have own: "js_get (transports g) sid = Own t" using assms by (simp add: js_get_ordinary)
  obtain r g1 where c: "close_transport env sid g = (r, g1)"
    by (cases "close_transport env sid g")
  then have g1: "transports g1 = js_delete sid (transports g)"
    using own by (auto simp: close_transport_def)
  let ?g3 = "(decrement_count env g1)
               \<lparr> events := events (decrement_count env g1) @ [SessionCleanup sid] \<rparr>"
  have "transports (snd (cleanupSession env sid g)) = js_delete sid (transports g)"
  proof (cases r)
    case (Some err)
    with c g1 show ?thesis by (simp add: cleanupSession_def)
  next
    case None
    show ?thesis
    proof (cases "cleanupSessionConnections_throws env")
      case (Some err)
      with None c g1 show ?thesis by (simp add: cleanupSession_def Let_def decrement_count_keeps)
    next
      case None': None
      have "snd (cleanupSession env sid g) = snd (cleanupEndpointIfUnused env ?g3)"
        using None None' c by (simp add: cleanupSession_def Let_def)
      with g1 show ?thesis by (simp add: cleanupEndpointIfUnused_transports decrement_count_keeps)
    qed
  qed
  then show ?thesis by (simp add: js_delete_def)
qed

text \<open>
  Claim C2, as amended. On an endpoint whose name is not the name of a member of
  \<open>Object.prototype\<close>, a DELETE whose session id is not empty, is not such a name either
  and is not in \<open>transports\<close> (never issued, or already closed) is answered 200 with an
  empty body when neither \<open>cleanupSessionConnections\<close> nor the instance's \<open>cleanup\<close>
  throws, and leaves \<open>transports\<close> as it was; in particular a second DELETE for a
  session id is answered 200 again. No session-not-found error exists on this route.
\<close>

theorem delete_unknown_session_returns_200:
  assumes "sid \<noteq> []" and "sid \<notin> set object_prototype_members"
    and "endpointName env \<notin> set object_prototype_members"
    and "cleanupSessionConnections_throws env = None"
    and "cleanup_throws env = None"
  shows "(transports g sid = None \<longrightarrow>
            fst (delete_handler env (Some sid) g) = Response 200 Empty
            \<and> transports (snd (delete_handler env (Some sid) g)) = transports g)
         \<and> fst (delete_handler env (Some sid) (snd (delete_handler env' (Some sid) g)))
            = Response 200 Empty"
proof -
  have unknown: "fst (delete_handler env (Some sid) h) = Response 200 Empty
                 \<and> transports (snd (delete_handler env (Some sid) h)) = transports h"
    if "transports h sid = None" for h
  proof -
    have u: "js_get (transports h) sid = Undefined"
      using that assms(2) by (simp add: js_get_ordinary)
    from cleanupSession_unknown [OF u assms(3,4,5)] assms(1) show ?thesis
      by (cases "cleanupSession env sid h") (simp add: delete_handler_def)
  qed
  have "transports (snd (delete_handler env' (Some sid) g)) sid = None"
    using cleanupSession_removes [OF assms(2), of env' g] assms(1)
    by (cases "cleanupSession env' sid g") (auto simp: delete_handler_def split: option.splits)
  with unknown show ?thesis by blast
qed

theorem delete_unknown_session_returns_200_witness:
  "fst (delete_handler (env_ok ''ns'' ''e'' ''s9'') (Some ''ghost'') gateway0) = Response 200 Empty
   \<and> transports (snd (delete_handler (env_ok ''ns'' ''e'' ''s9'') (Some ''ghost'') gateway0))
      = transports gateway0
   \<and> fst (delete_handler (env_ok ''ns'' ''e'' ''s9'') (Some ''s1'')
            (snd (delete_handler (env_ok ''ns'' ''e'' ''s9'') (Some ''s1'') one_session)))
      = Response 200 Empty"
proof -
  have u: "transports gateway0 ''ghost'' = None" by (simp add: gateway0_def)
  have m: "''ghost'' \<notin> set object_prototype_members" "''s1'' \<notin> set object_prototype_members"
    "endpointName (env_ok ''ns'' ''e'' ''s9'') \<notin> set object_prototype_members"
    by (simp_all add: object_prototype_members_def env_ok_def)
  have c: "cleanupSessionConnections_throws (env_ok ''ns'' ''e'' ''s9'') = None"
    and d: "cleanup_throws (env_ok ''ns'' ''e'' ''s9'') = None"
    by (simp_all add: env_ok_def)
  from delete_unknown_session_returns_200
         [where sid = "''ghost''" and g = gateway0, OF _ m(1) m(3) c d] u
  have "fst (delete_handler (env_ok ''ns'' ''e'' ''s9'') (Some ''ghost'') gateway0) = Response 200 Empty
        \<and> transports (snd (delete_handler (env_ok ''ns'' ''e'' ''s9'') (Some ''ghost'') gateway0))
           = transports gateway0"
    by simp
  moreover from delete_unknown_session_returns_200
         [where sid = "''s1''" and g = one_session and env' = "env_ok ''ns'' ''e'' ''s9''",
          OF _ m(2) m(3) c d]
  have "fst (delete_handler (env_ok ''ns'' ''e'' ''s9'') (Some ''s1'')
            (snd (delete_handler (env_ok ''ns'' ''e'' ''s9'') (Some ''s1'') one_session)))
      = Response 200 Empty"
    by simp
  ultimately show ?thesis by simp
qed

text \<open>
  Claim C2 as stated fails: a DELETE for the session id \<open>ghost\<close>, which is not
  registered, completes with status 200 and an empty body.
\<close>

theorem delete_unknown_session_counterexample:
  "transports gateway0 ''ghost'' = None
   \<and> delete_handler (env_ok ''ns'' ''e'' ''s9'') (Some ''ghost'') gateway0
       = (Response 200 Empty, gateway0 \<lparr> events := [SessionCleanup ''ghost''] \<rparr>)"
  by (simp add: delete_handler_def cleanupSession_def close_transport_def decrement_count_def
        cleanupEndpointIfUnused_def env_ok_def gateway0_def count_or_zero_def js_get_def
        object_prototype_members_def)

section \<open>Begin: registration, connect and failure\<close>

text \<open>The state a Begin request leaves once \<open>createMetaMcpServer\<close> has settled.\<close>

lemma post_begin_own:
  "js_get (metamcpServers g) (endpointName env) = Own inst \<Longrightarrow>
   post_begin env g = run_begin env (g, AwaitInstance (Inr (Instance inst)))"
  by (simp add: post_begin_def)

lemma post_begin_inherited:
  "js_get (metamcpServers g) (endpointName env) = Inherited \<Longrightarrow>
   post_begin env g = run_begin env (g, AwaitInstance (Inr (PrototypeMember (endpointName env))))"
  by (simp add: post_begin_def)

lemma post_begin_miss:
  "js_get (metamcpServers g) (endpointName env) = Undefined \<Longrightarrow>
   createServer_throws env = None \<Longrightarrow>
   post_begin env g =
     run_begin env
       (g\<lparr> fresh := Suc (fresh g),
           events := events g @ [FactoryCall (namespaceUuid env) (randomUUID env) (fresh g)],
           metamcpServers := js_put (endpointName env) (fresh g) (metamcpServers g) \<rparr>,
        AwaitInstance (Inr (Instance (fresh g))))"
  by (simp add: post_begin_def)

lemma post_begin_factory_fails:
  "js_get (metamcpServers g) (endpointName env) = Undefined \<Longrightarrow>
   createServer_throws env = Some err \<Longrightarrow>
   post_begin env g =
     (Response 500 (Json err),
      g\<lparr> fresh := Suc (fresh g),
          events := events g @ [FactoryCall (namespaceUuid env) (randomUUID env) (fresh g)] \<rparr>)"
  by (simp add: post_begin_def)

lemma run_begin_instance:
  assumes "newTransport_throws env = None"
  shows "transports (snd (run_begin env (h, AwaitInstance (Inr (Instance inst)))))
           = js_put (randomUUID env) (fresh h) (transports h)"
    and "endpointSessionCounts (snd (run_begin env (h, AwaitInstance (Inr (Instance inst)))))
           = js_put (endpointName env) (js_plus_one (count_or_zero h (endpointName env)))
               (endpointSessionCounts h)"
    and "events (snd (run_begin env (h, AwaitInstance (Inr (Instance inst)))))
           = events h @ [NewTransport (fresh h), Connect inst (fresh h)]
             @ (if connect_throws env = None then [HandleRequest (fresh h)] else [])"
    and "fst (run_begin env (h, AwaitInstance (Inr (Instance inst))))
           = (case connect_throws env of
                Some err \<Rightarrow> Response 500 (Json err)
              | None \<Rightarrow> (case handleRequest_throws env of
                           Some err \<Rightarrow> Response 500 (Json err)
                         | None \<Rightarrow> Forwarded (fresh h)))"
  using assms by (auto simp: Let_def split: option.splits)

lemma run_begin_member:
  assumes "newTransport_throws env = None"
  shows "run_begin env (h, AwaitInstance (Inr (PrototypeMember k)))
         = (Response 500 (Json type_error),
            h\<lparr> endpointSessionCounts :=
                 js_put (endpointName env) (js_plus_one (count_or_zero h (endpointName env)))
                   (endpointSessionCounts h),
               transports := js_put (randomUUID env) (fresh h) (transports h),
               fresh := Suc (fresh h),
               events := events h @ [NewTransport (fresh h)] \<rparr>)"
  using assms by (simp add: Let_def)

lemma run_begin_transport_fails:
  assumes "newTransport_throws env = Some err"
  shows "run_begin env (h, AwaitInstance (Inr hv))
         = (Response 500 (Json err),
            h\<lparr> endpointSessionCounts :=
                 js_put (endpointName env) (js_plus_one (count_or_zero h (endpointName env)))
                   (endpointSessionCounts h) \<rparr>)"
  using assms by (simp add: Let_def)

lemma count_or_zero_cong:
  "endpointSessionCounts h = endpointSessionCounts g \<Longrightarrow> count_or_zero h ep = count_or_zero g ep"
  by (simp add: count_or_zero_def)

lemma acquired:
  assumes "js_get (metamcpServers g) (endpointName env) \<noteq> Undefined
           \<or> createServer_throws env = None"
  shows "\<exists>h hv pre.
           post_begin env g = run_begin env (h, AwaitInstance (Inr hv))
           \<and> endpointSessionCounts h = endpointSessionCounts g
           \<and> transports h = transports g
           \<and> events h = events g @ pre
           \<and> (\<forall>t. NewTransport t \<notin> set pre \<and> HandleRequest t \<notin> set pre)
           \<and> ((\<exists>inst. hv = Instance inst)
                \<longleftrightarrow> js_get (metamcpServers g) (endpointName env) \<noteq> Inherited)"
proof (cases "js_get (metamcpServers g) (endpointName env)")
  case (Own inst)
  have "post_begin env g = run_begin env (g, AwaitInstance (Inr (Instance inst)))
        \<and> endpointSessionCounts g = endpointSessionCounts g
        \<and> transports g = transports g \<and> events g = events g @ []
        \<and> (\<forall>t. NewTransport t \<notin> set [] \<and> HandleRequest t \<notin> set [])
        \<and> ((\<exists>i. Instance inst = Instance i)
             \<longleftrightarrow> js_get (metamcpServers g) (endpointName env) \<noteq> Inherited)"
    using post_begin_own [OF Own] Own by simp
  then show ?thesis by blast
next
  case Inherited
  have "post_begin env g = run_begin env (g, AwaitInstance (Inr (PrototypeMember (endpointName env))))
        \<and> endpointSessionCounts g = endpointSessionCounts g
        \<and> transports g = transports g \<and> events g = events g @ []
        \<and> (\<forall>t. NewTransport t \<notin> set [] \<and> HandleRequest t \<notin> set [])
        \<and> ((\<exists>i. PrototypeMember (endpointName env) = Instance i)
             \<longleftrightarrow> js_get (metamcpServers g) (endpointName env) \<noteq> Inherited)"
    using post_begin_inherited [OF Inherited] Inherited by simp
  then show ?thesis by blast
next
  case Undefined
  with assms have ok: "createServer_throws env = None" by simp
  let ?f = "FactoryCall (namespaceUuid env) (randomUUID env) (fresh g)"
  let ?h = "g\<lparr> fresh := Suc (fresh g), events := events g @ [?f],
               metamcpServers := js_put (endpointName env) (fresh g) (metamcpServers g) \<rparr>"
  have "post_begin env g = run_begin env (?h, AwaitInstance (Inr (Instance (fresh g))))
        \<and> endpointSessionCounts ?h = endpointSessionCounts g
        \<and> transports ?h = transports g \<and> events ?h = events g @ [?f]
        \<and> (\<forall>t. NewTransport t \<notin> set [?f] \<and> HandleRequest t \<notin> set [?f])
        \<and> ((\<exists>i. Instance (fresh g) = Instance i)
             \<longleftrightarrow> js_get (metamcpServers g) (endpointName env) \<noteq> Inherited)"
    using post_begin_miss [OF Undefined ok] Undefined by simp
  then show ?thesis by blast
qed

text \<open>
  Claim C4, as amended. During every Begin that obtains an instance and builds its
  transport, the transport is stored in \<open>transports\<close> in the same uninterrupted step
  that calls \<open>connect\<close>, that is before the connect step has resolved, and it stays
  stored whether or not connect succeeds. What waits for the connect step to succeed is
  the dispatch of the original request through the transport (\<open>handleRequest\<close>): it
  happens exactly when \<open>connect\<close> was called on a server instance and did not throw.
  The session id is what \<open>randomUUID()\<close> returned, a UUID, so it is not \<open>__proto__\<close>.
\<close>

theorem begin_registers_then_connects:
  "(newTransport_throws env = None \<and> randomUUID env \<noteq> ''__proto__'' \<longrightarrow>
      (case begin_step env (g, AwaitInstance (Inr (Instance inst))) of
         (g', tk) \<Rightarrow>
           tk = AwaitConnect inst (fresh g)
           \<and> transports g' (randomUUID env) = Some (fresh g)
           \<and> events g' = events g @ [NewTransport (fresh g), Connect inst (fresh g)]))
   \<and> (connect_throws env = None \<longrightarrow>
        begin_step env (g, AwaitConnect inst t)
        = (g\<lparr> events := events g @ [HandleRequest t] \<rparr>, AwaitHandleRequest t))
   \<and> (\<forall>err. connect_throws env = Some err \<longrightarrow>
        begin_step env (g, AwaitConnect inst t) = (g, Finished (Response 500 (Json err))))
   \<and> ((js_get (metamcpServers g) (endpointName env) \<noteq> Undefined
         \<or> createServer_throws env = None)
        \<and> newTransport_throws env = None \<and> randomUUID env \<noteq> ''__proto__'' \<longrightarrow>
        (\<exists>t. transports (snd (post_begin env g)) (randomUUID env) = Some t
            \<and> NewTransport t \<in> set (drop (length (events g)) (events (snd (post_begin env g))))
            \<and> (HandleRequest t \<in> set (drop (length (events g)) (events (snd (post_begin env g))))
                 \<longleftrightarrow> connect_throws env = None
                      \<and> js_get (metamcpServers g) (endpointName env) \<noteq> Inherited)))"
proof (intro conjI impI allI)
  assume "newTransport_throws env = None \<and> randomUUID env \<noteq> ''__proto__''"
  then show "case begin_step env (g, AwaitInstance (Inr (Instance inst))) of
         (g', tk) \<Rightarrow>
           tk = AwaitConnect inst (fresh g)
           \<and> transports g' (randomUUID env) = Some (fresh g)
           \<and> events g' = events g @ [NewTransport (fresh g), Connect inst (fresh g)]"
    by (simp add: Let_def js_put_def)
next
  assume "connect_throws env = None"
  then show "begin_step env (g, AwaitConnect inst t)
        = (g\<lparr> events := events g @ [HandleRequest t] \<rparr>, AwaitHandleRequest t)"
    by simp
next
  fix err assume "connect_throws env = Some err"
  then show "begin_step env (g, AwaitConnect inst t) = (g, Finished (Response 500 (Json err)))"
    by simp
next
  assume a: "(js_get (metamcpServers g) (endpointName env) \<noteq> Undefined
         \<or> createServer_throws env = None)
        \<and> newTransport_throws env = None \<and> randomUUID env \<noteq> ''__proto__''"
  then have nt: "newTransport_throws env = None" and np: "randomUUID env \<noteq> ''__proto__''"
    by simp_all
  from a have "js_get (metamcpServers g) (endpointName env) \<noteq> Undefined
               \<or> createServer_throws env = None" by simp
  from acquired [OF this] obtain h hv pre where
    pb: "post_begin env g = run_begin env (h, AwaitInstance (Inr hv))"
    and ev: "events h = events g @ pre"
      "\<forall>t. NewTransport t \<notin> set pre \<and> HandleRequest t \<notin> set pre"
    and real: "(\<exists>inst. hv = Instance inst)
               \<longleftrightarrow> js_get (metamcpServers g) (endpointName env) \<noteq> Inherited"
    by blast
  show "\<exists>t. transports (snd (post_begin env g)) (randomUUID env) = Some t
            \<and> NewTransport t \<in> set (drop (length (events g)) (events (snd (post_begin env g))))
            \<and> (HandleRequest t \<in> set (drop (length (events g)) (events (snd (post_begin env g))))
                 \<longleftrightarrow> connect_throws env = None
                      \<and> js_get (metamcpServers g) (endpointName env) \<noteq> Inherited)"
  proof (cases hv)
    case (Instance inst')
    have "transports (snd (post_begin env g)) (randomUUID env) = Some (fresh h)"
      using run_begin_instance(1) [OF nt, of h inst'] pb Instance np by (simp add: js_put_def)
    moreover have "drop (length (events g)) (events (snd (post_begin env g)))
          = pre @ [NewTransport (fresh h), Connect inst' (fresh h)]
            @ (if connect_throws env = None then [HandleRequest (fresh h)] else [])"
      using run_begin_instance(3) [OF nt, of h inst'] pb Instance ev(1) by simp
    ultimately show ?thesis using ev(2) real Instance by auto
  next
    case (PrototypeMember k)
    note r = run_begin_member [OF nt, of h k]
    have "transports (snd (post_begin env g)) (randomUUID env) = Some (fresh h)"
      using r pb PrototypeMember np by (simp add: js_put_def)
    moreover have "drop (length (events g)) (events (snd (post_begin env g)))
          = pre @ [NewTransport (fresh h)]"
      using r pb PrototypeMember ev(1) by simp
    ultimately show ?thesis using ev(2) real PrototypeMember by auto
  qed
qed

theorem begin_registers_then_connects_witness:
  "(case begin_step connect_fails (gateway0, AwaitInstance (Inr (Instance 0))) of
      (g', tk) \<Rightarrow>
        tk = AwaitConnect 0 0 \<and> transports g' ''s1'' = Some 0
        \<and> events g' = [NewTransport 0, Connect 0 0])
   \<and> begin_step (env_ok ''ns'' ''e'' ''s1'') (gateway0, AwaitConnect 0 1)
      = (gateway0 \<lparr> events := [HandleRequest 1] \<rparr>, AwaitHandleRequest 1)
   \<and> begin_step connect_fails (gateway0, AwaitConnect 0 1)
      = (gateway0, Finished (Response 500 (Json leaky_error)))
   \<and> (\<exists>t. transports (snd (post_begin connect_fails gateway0)) ''s1'' = Some t
          \<and> NewTransport t \<in> set (events (snd (post_begin connect_fails gateway0)))
          \<and> HandleRequest t \<notin> set (events (snd (post_begin connect_fails gateway0))))"
proof -
  have e: "newTransport_throws connect_fails = None" "connect_throws connect_fails = Some leaky_error"
    "createServer_throws connect_fails = None" "randomUUID connect_fails = ''s1''"
    "connect_throws (env_ok ''ns'' ''e'' ''s1'') = None"
    by (simp_all add: connect_fails_def env_ok_def)
  have g: "fresh gateway0 = 0" "events gateway0 = []" by (simp_all add: gateway0_def)
  from begin_registers_then_connects
         [where env = connect_fails and g = gateway0 and inst = 0 and t = 1] e g
  have "(case begin_step connect_fails (gateway0, AwaitInstance (Inr (Instance 0))) of
      (g', tk) \<Rightarrow>
        tk = AwaitConnect 0 0 \<and> transports g' ''s1'' = Some 0
        \<and> events g' = [NewTransport 0, Connect 0 0])"
    and "begin_step connect_fails (gateway0, AwaitConnect 0 1)
      = (gateway0, Finished (Response 500 (Json leaky_error)))"
    and "\<exists>t. transports (snd (post_begin connect_fails gateway0)) ''s1'' = Some t
          \<and> NewTransport t \<in> set (events (snd (post_begin connect_fails gateway0)))
          \<and> HandleRequest t \<notin> set (events (snd (post_begin connect_fails gateway0)))"
    by simp_all
  moreover from begin_registers_then_connects
         [where env = "env_ok ''ns'' ''e'' ''s1''" and g = gateway0 and inst = 0 and t = 1] e g
  have "begin_step (env_ok ''ns'' ''e'' ''s1'') (gateway0, AwaitConnect 0 1)
      = (gateway0 \<lparr> events := [HandleRequest 1] \<rparr>, AwaitHandleRequest 1)"
    by simp
  ultimately show ?thesis by simp
qed

text \<open>
  Claim C4 as stated fails: while the Begin request for session \<open>s1\<close> is still waiting
  for \<open>connect\<close>, the session is registered and a GET carrying \<open>s1\<close> is forwarded to
  its transport; when connect then fails the session stays registered.
\<close>

theorem begin_session_visible_before_connect_counterexample:
  "(case begin_step connect_fails (begin_step connect_fails (begin_step connect_fails
           (gateway0, BeginStart))) of
      (g, tk) \<Rightarrow>
        tk = AwaitConnect 0 1 \<and> transports g ''s1'' = Some 1
        \<and> fst (get_handler (env_ok ''ns'' ''e'' ''s2'') (Some ''s1'') g) = Forwarded 1)
   \<and> (case post_handler connect_fails None gateway0 of
        (r, g) \<Rightarrow> r = Response 500 (Json leaky_error) \<and> transports g ''s1'' = Some 1)"
  by (simp add: post_handler_def post_begin_def get_handler_def forward_def connect_fails_def
        env_ok_def gateway0_def count_or_zero_def js_get_def js_put_def
        object_prototype_members_def)

text \<open>
  Claim C7, as amended. When \<open>createMetaMcpServer\<close> finds nothing cached and the call
  to \<open>createServer\<close> fails, Begin answers 500 and leaves \<open>transports\<close>, the session
  counts and the instance cache as they were. On an endpoint whose name is not the name
  of a member of \<open>Object.prototype\<close>: when \<open>connect\<close> or the first \<open>handleRequest\<close>
  throws, Begin answers 500 and undoes nothing, the endpoint's session count stays
  incremented by one and the new session's transport stays registered in
  \<open>transports\<close>; when building the transport throws, Begin answers 500, the count
  stays incremented by one and \<open>transports\<close> is as it was.
\<close>

theorem begin_failure_keeps_count_and_session:
  "(\<forall>err. js_get (metamcpServers g) (endpointName env) = Undefined
          \<and> createServer_throws env = Some err \<longrightarrow>
        fst (post_begin env g) = Response 500 (Json err)
        \<and> transports (snd (post_begin env g)) = transports g
        \<and> endpointSessionCounts (snd (post_begin env g)) = endpointSessionCounts g
        \<and> metamcpServers (snd (post_begin env g)) = metamcpServers g)
   \<and> (\<forall>err n. endpointName env \<notin> set object_prototype_members
          \<and> (metamcpServers g (endpointName env) \<noteq> None \<or> createServer_throws env = None)
          \<and> newTransport_throws env = None \<and> randomUUID env \<noteq> ''__proto__''
          \<and> (connect_throws env = Some err
              \<or> connect_throws env = None \<and> handleRequest_throws env = Some err)
          \<and> count_or_zero g (endpointName env) = Num n \<longrightarrow>
        fst (post_begin env g) = Response 500 (Json err)
        \<and> endpointSessionCounts (snd (post_begin env g)) (endpointName env) = Some (Num (n + 1))
        \<and> transports (snd (post_begin env g)) (randomUUID env) \<noteq> None)
   \<and> (\<forall>err n. endpointName env \<notin> set object_prototype_members
          \<and> (metamcpServers g (endpointName env) \<noteq> None \<or> createServer_throws env = None)
          \<and> newTransport_throws env = Some err
          \<and> count_or_zero g (endpointName env) = Num n \<longrightarrow>
        fst (post_begin env g) = Response 500 (Json err)
        \<and> endpointSessionCounts (snd (post_begin env g)) (endpointName env) = Some (Num (n + 1))
        \<and> transports (snd (post_begin env g)) = transports g)"
proof -
  have p1: "fst (post_begin env g) = Response 500 (Json err)
        \<and> transports (snd (post_begin env g)) = transports g
        \<and> endpointSessionCounts (snd (post_begin env g)) = endpointSessionCounts g
        \<and> metamcpServers (snd (post_begin env g)) = metamcpServers g"
    if "js_get (metamcpServers g) (endpointName env) = Undefined"
      "createServer_throws env = Some err" for err
    by (simp add: post_begin_factory_fails [OF that])
  have start: "\<exists>h inst. post_begin env g = run_begin env (h, AwaitInstance (Inr (Instance inst)))
        \<and> endpointSessionCounts h = endpointSessionCounts g \<and> transports h = transports g"
    if ord: "endpointName env \<notin> set object_prototype_members"
      and acq: "metamcpServers g (endpointName env) \<noteq> None \<or> createServer_throws env = None"
  proof -
    have ni: "js_get (metamcpServers g) (endpointName env) \<noteq> Inherited"
      using ord by (simp add: js_get_ordinary split: option.splits)
    have "js_get (metamcpServers g) (endpointName env) \<noteq> Undefined
          \<or> createServer_throws env = None"
      using acq ord by (auto simp: js_get_ordinary split: option.splits)
    from acquired [OF this] ni show ?thesis by blast
  qed
  have np: "endpointName env \<noteq> ''__proto__''"
    if "endpointName env \<notin> set object_prototype_members"
    using that proto_is_member by auto
  have p2: "fst (post_begin env g) = Response 500 (Json err)
        \<and> endpointSessionCounts (snd (post_begin env g)) (endpointName env) = Some (Num (n + 1))
        \<and> transports (snd (post_begin env g)) (randomUUID env) \<noteq> None"
    if ord: "endpointName env \<notin> set object_prototype_members"
      and acq: "metamcpServers g (endpointName env) \<noteq> None \<or> createServer_throws env = None"
      and nt: "newTransport_throws env = None" and sid: "randomUUID env \<noteq> ''__proto__''"
      and fails: "connect_throws env = Some err
              \<or> connect_throws env = None \<and> handleRequest_throws env = Some err"
      and cnt: "count_or_zero g (endpointName env) = Num n" for err n
  proof -
    from start [OF ord acq] obtain h inst where
      pb: "post_begin env g = run_begin env (h, AwaitInstance (Inr (Instance inst)))"
      and c: "endpointSessionCounts h = endpointSessionCounts g"
      by blast
    have cn: "count_or_zero h (endpointName env) = Num n"
      using count_or_zero_cong [OF c] cnt by simp
    have "fst (post_begin env g) = Response 500 (Json err)"
      using run_begin_instance(4) [OF nt, of h inst] pb fails by auto
    moreover have "endpointSessionCounts (snd (post_begin env g)) (endpointName env)
                   = Some (Num (n + 1))"
      using run_begin_instance(2) [OF nt, of h inst] pb cn np [OF ord] by (simp add: js_put_def)
    moreover have "transports (snd (post_begin env g)) (randomUUID env) \<noteq> None"
      using run_begin_instance(1) [OF nt, of h inst] pb sid by (simp add: js_put_def)
    ultimately show ?thesis by simp
  qed
  have p3: "fst (post_begin env g) = Response 500 (Json err)
        \<and> endpointSessionCounts (snd (post_begin env g)) (endpointName env) = Some (Num (n + 1))
        \<and> transports (snd (post_begin env g)) = transports g"
    if ord: "endpointName env \<notin> set object_prototype_members"
      and acq: "metamcpServers g (endpointName env) \<noteq> None \<or> createServer_throws env = None"
      and nt: "newTransport_throws env = Some err"
      and cnt: "count_or_zero g (endpointName env) = Num n" for err n
  proof -
    from start [OF ord acq] obtain h inst where
      pb: "post_begin env g = run_begin env (h, AwaitInstance (Inr (Instance inst)))"
      and c: "endpointSessionCounts h = endpointSessionCounts g"
      and tr: "transports h = transports g"
      by blast
    have cn: "count_or_zero h (endpointName env) = Num n"
      using count_or_zero_cong [OF c] cnt by simp
    have r: "post_begin env g
           = (Response 500 (Json err),
              h\<lparr> endpointSessionCounts :=
                   js_put (endpointName env) (js_plus_one (count_or_zero h (endpointName env)))
                     (endpointSessionCounts h) \<rparr>)"
      unfolding pb by (rule run_begin_transport_fails [OF nt])
    show ?thesis using cn tr np [OF ord] by (simp add: r js_put_def)
  qed
  from p1 p2 p3 show ?thesis by blast
qed

theorem begin_failure_keeps_count_and_session_witness:
  "fst (post_begin factory_fails gateway0) = Response 500 (Json leaky_error)
   \<and> transports (snd (post_begin factory_fails gateway0)) = transports gateway0
   \<and> endpointSessionCounts (snd (post_begin factory_fails gateway0)) = endpointSessionCounts gateway0
   \<and> metamcpServers (snd (post_begin factory_fails gateway0)) = metamcpServers gateway0
   \<and> fst (post_begin connect_fails gateway0) = Response 500 (Json leaky_error)
   \<and> endpointSessionCounts (snd (post_begin connect_fails gateway0)) ''e'' = Some (Num 1)
   \<and> transports (snd (post_begin connect_fails gateway0)) ''s1'' \<noteq> None
   \<and> fst (post_begin transport_fails gateway0) = Response 500 (Json leaky_error)
   \<and> endpointSessionCounts (snd (post_begin transport_fails gateway0)) ''e'' = Some (Num 1)
   \<and> transports (snd (post_begin transport_fails gateway0)) = transports gateway0"
proof -
  have o: "''e'' \<notin> set object_prototype_members" by (simp add: object_prototype_members_def)
  have z: "count_or_zero gateway0 ''e'' = Num 0"
    by (simp add: count_or_zero_def js_get_def gateway0_def object_prototype_members_def)
  have f: "js_get (metamcpServers gateway0) (endpointName factory_fails) = Undefined
           \<and> createServer_throws factory_fails = Some leaky_error"
    by (simp add: factory_fails_def env_ok_def gateway0_def js_get_def
          object_prototype_members_def)
  have c: "endpointName connect_fails \<notin> set object_prototype_members
          \<and> (metamcpServers gateway0 (endpointName connect_fails) \<noteq> None
              \<or> createServer_throws connect_fails = None)
          \<and> newTransport_throws connect_fails = None
          \<and> randomUUID connect_fails \<noteq> ''__proto__''
          \<and> (connect_throws connect_fails = Some leaky_error
              \<or> connect_throws connect_fails = None
                 \<and> handleRequest_throws connect_fails = Some leaky_error)
          \<and> count_or_zero gateway0 (endpointName connect_fails) = Num 0"
    using o z by (simp add: connect_fails_def env_ok_def)
  have t: "endpointName transport_fails \<notin> set object_prototype_members
          \<and> (metamcpServers gateway0 (endpointName transport_fails) \<noteq> None
              \<or> createServer_throws transport_fails = None)
          \<and> newTransport_throws transport_fails = Some leaky_error
          \<and> count_or_zero gateway0 (endpointName transport_fails) = Num 0"
    using o z by (simp add: transport_fails_def env_ok_def)
  have n: "endpointName connect_fails = ''e''" "randomUUID connect_fails = ''s1''"
    "endpointName transport_fails = ''e''"
    by (simp_all add: connect_fails_def transport_fails_def env_ok_def)
  from begin_failure_keeps_count_and_session [where g = gateway0 and env = factory_fails] f
  have "fst (post_begin factory_fails gateway0) = Response 500 (Json leaky_error)
   \<and> transports (snd (post_begin factory_fails gateway0)) = transports gateway0
   \<and> endpointSessionCounts (snd (post_begin factory_fails gateway0)) = endpointSessionCounts gateway0
   \<and> metamcpServers (snd (post_begin factory_fails gateway0)) = metamcpServers gateway0"
    by blast
  moreover from begin_failure_keeps_count_and_session [where g = gateway0 and env = connect_fails] c
  have "fst (post_begin connect_fails gateway0) = Response 500 (Json leaky_error)
   \<and> endpointSessionCounts (snd (post_begin connect_fails gateway0)) (endpointName connect_fails)
       = Some (Num (0 + 1))
   \<and> transports (snd (post_begin connect_fails gateway0)) (randomUUID connect_fails) \<noteq> None"
    by blast
  moreover from begin_failure_keeps_count_and_session [where g = gateway0 and env = transport_fails] t
  have "fst (post_begin transport_fails gateway0) = Response 500 (Json leaky_error)
   \<and> endpointSessionCounts (snd (post_begin transport_fails gateway0)) (endpointName transport_fails)
       = Some (Num (0 + 1))
   \<and> transports (snd (post_begin transport_fails gateway0)) = transports gateway0"
    by blast
  ultimately show ?thesis using n by simp
qed

text \<open>
  Claim C7 as stated fails: after a Begin whose \<open>connect\<close> throws, the count of the
  endpoint has gone from 0 to 1 and the session \<open>s1\<close> is registered.
\<close>

theorem begin_connect_failure_counterexample:
  "(case post_handler connect_fails None gateway0 of
      (r, g) \<Rightarrow>
        r = Response 500 (Json leaky_error)
        \<and> count_or_zero gateway0 ''e'' = Num 0 \<and> count_or_zero g ''e'' = Num 1
        \<and> transports gateway0 ''s1'' = None \<and> transports g ''s1'' = Some 1)"
  by (simp add: post_handler_def post_begin_def connect_fails_def
        env_ok_def gateway0_def count_or_zero_def js_get_def js_put_def
        object_prototype_members_def)

section \<open>Begin followed by Continue\<close>

lemma post_begin_transports:
  "transports (snd (post_begin env g)) = transports g
   \<or> (\<exists>t. transports (snd (post_begin env g)) = js_put (randomUUID env) t (transports g))"
proof (cases "js_get (metamcpServers g) (endpointName env) \<noteq> Undefined
              \<or> createServer_throws env = None")
  case True
  from acquired [OF True] obtain h hv where
    pb: "post_begin env g = run_begin env (h, AwaitInstance (Inr hv))"
    and tr: "transports h = transports g"
    by blast
  show ?thesis
  proof (cases "newTransport_throws env")
    case (Some err)
    from run_begin_transport_fails [OF Some, of h hv] pb tr show ?thesis by simp
  next
    case None
    show ?thesis
    proof (cases hv)
      case (Instance inst)
      with run_begin_instance(1) [OF None, of h inst] pb tr show ?thesis by auto
    next
      case (PrototypeMember k)
      with run_begin_member [OF None, of h k] pb tr show ?thesis by auto
    qed
  qed
next
  case False
  then obtain err where "js_get (metamcpServers g) (endpointName env) = Undefined"
    "createServer_throws env = Some err" by auto
  from post_begin_factory_fails [OF this] show ?thesis by simp
qed

lemma forward_transports: "transports (snd (forward env t g)) = transports g"
  by (cases "handleRequest_throws env") (simp_all add: forward_def Let_def)

lemma get_handler_transports: "transports (snd (get_handler env s g)) = transports g"
  by (cases "js_get (transports g) (case s of None \<Rightarrow> ''undefined'' | Some x \<Rightarrow> x)")
     (simp_all add: get_handler_def forward_transports)

lemma post_continue_transports: "transports (snd (post_continue env s g)) = transports g"
  by (cases "js_get (transports g) s") (simp_all add: post_continue_def forward_transports)

lemma serve_keeps_session:
  assumes "\<not> ends_or_replaces sid r"
  shows "transports (snd (serve r g)) sid = transports g sid"
proof (cases r)
  case (GET env s)
  then show ?thesis by (simp add: get_handler_transports)
next
  case (POST env s)
  show ?thesis
  proof (cases "truthy s")
    case True
    then obtain x where "s = Some x" "x \<noteq> []" by (cases s) auto
    with POST show ?thesis by (simp add: post_handler_def post_continue_transports)
  next
    case False
    with POST assms have other: "randomUUID env \<noteq> sid" by simp
    from False have "post_handler env s g = post_begin env g"
      by (cases s) (simp_all add: post_handler_def)
    with POST post_begin_transports [of env g] other show ?thesis
      by (auto simp: js_put_def)
  qed
next
  case (DELETE env s)
  show ?thesis
  proof (cases s)
    case None
    with DELETE show ?thesis by (simp add: delete_handler_def)
  next
    case (Some x)
    with DELETE assms have other: "x \<noteq> sid" by simp
    show ?thesis
    proof (cases "x = []")
      case True
      with DELETE Some show ?thesis by (simp add: delete_handler_def)
    next
      case False
      have "snd (delete_handler env (Some x) g) = snd (cleanupSession env x g)"
        using False by (cases "cleanupSession env x g")
                       (simp add: delete_handler_def split: option.splits)
      with DELETE Some cleanupSession_transports [of env x g] other show ?thesis
        by (auto simp: js_delete_def)
    qed
  qed
qed

lemma serve_all_keeps_session:
  "\<forall>r \<in> set rs. \<not> ends_or_replaces sid r \<Longrightarrow>
   transports (serve_all rs g) sid = transports g sid"
proof (induction rs arbitrary: g)
  case Nil
  show ?case by simp
next
  case (Cons r rs)
  then have "transports (serve_all rs (snd (serve r g))) sid = transports (snd (serve r g)) sid"
    by simp
  also have "\<dots> = transports g sid" using Cons.prems by (simp add: serve_keeps_session)
  finally show ?case by simp
qed

lemma continue_dispatches:
  assumes "transports g sid = Some t" and "sid \<noteq> []" and "sid \<noteq> ''__proto__''"
  shows "post_handler env (Some sid) g
           = ((case handleRequest_throws env of
                 None \<Rightarrow> Forwarded t | Some err \<Rightarrow> Response 500 (Json err)),
              g \<lparr> events := events g @ [HandleRequest t] \<rparr>)"
    and "get_handler env (Some sid) g
           = ((case handleRequest_throws env of
                 None \<Rightarrow> Forwarded t | Some err \<Rightarrow> Response 500 (Json err)),
              g \<lparr> events := events g @ [HandleRequest t] \<rparr>)"
proof -
  have own: "js_get (transports g) sid = Own t" using assms(1,3) by (simp add: js_get_Own)
  show "post_handler env (Some sid) g
           = ((case handleRequest_throws env of
                 None \<Rightarrow> Forwarded t | Some err \<Rightarrow> Response 500 (Json err)),
              g \<lparr> events := events g @ [HandleRequest t] \<rparr>)"
    using own assms(2)
    by (cases "handleRequest_throws env")
       (simp_all add: post_handler_def post_continue_def forward_def Let_def)
  show "get_handler env (Some sid) g
           = ((case handleRequest_throws env of
                 None \<Rightarrow> Forwarded t | Some err \<Rightarrow> Response 500 (Json err)),
              g \<lparr> events := events g @ [HandleRequest t] \<rparr>)"
    using own
    by (cases "handleRequest_throws env") (simp_all add: get_handler_def forward_def Let_def)
qed

lemma begin_stores:
  assumes "js_get (metamcpServers g) (endpointName env) \<noteq> Undefined
           \<or> createServer_throws env = None"
    and "newTransport_throws env = None" and "randomUUID env \<noteq> ''__proto__''"
  shows "\<exists>t. transports (snd (post_begin env g)) = (transports g)(randomUUID env \<mapsto> t)
           \<and> NewTransport t \<in> set (drop (length (events g)) (events (snd (post_begin env g))))"
proof -
  from acquired [OF assms(1)] obtain h hv pre where
    pb: "post_begin env g = run_begin env (h, AwaitInstance (Inr hv))"
    and tr: "transports h = transports g"
    and ev: "events h = events g @ pre"
    by blast
  show ?thesis
  proof (cases hv)
    case (Instance inst)
    have "transports (snd (post_begin env g)) = (transports g)(randomUUID env \<mapsto> fresh h)"
      using run_begin_instance(1) [OF assms(2), of h inst] pb Instance tr assms(3)
      by (simp add: js_put_def)
    moreover have "drop (length (events g)) (events (snd (post_begin env g)))
          = pre @ [NewTransport (fresh h), Connect inst (fresh h)]
            @ (if connect_throws env = None then [HandleRequest (fresh h)] else [])"
      using run_begin_instance(3) [OF assms(2), of h inst] pb Instance ev by simp
    ultimately show ?thesis by auto
  next
    case (PrototypeMember k)
    note r = run_begin_member [OF assms(2), of h k]
    have "transports (snd (post_begin env g)) = (transports g)(randomUUID env \<mapsto> fresh h)"
      using r pb PrototypeMember tr assms(3) by (simp add: js_put_def)
    moreover have "drop (length (events g)) (events (snd (post_begin env g)))
          = pre @ [NewTransport (fresh h)]"
      using r pb PrototypeMember ev by simp
    ultimately show ?thesis by auto
  qed
qed

text \<open>
  Claim C9. A Begin that obtained an instance and built its transport \<open>t\<close> stores \<open>t\<close>
  under the new session id and leaves every other entry of \<open>transports\<close> as it was.
  After any further requests, none of which is a DELETE for that session id or a Begin
  that draws the same id again, \<open>t\<close> is still what is stored under the id, and a POST or
  a GET carrying the id is dispatched through that same transport \<open>t\<close>: the Continue
  request changes nothing but the log of calls, to which it adds the one
  \<open>handleRequest\<close> on \<open>t\<close> (no call to the factory, no new transport, no new object).
  The session id is what \<open>randomUUID()\<close> returned, a UUID: it is neither empty nor
  \<open>__proto__\<close>.
\<close>

theorem continue_reuses_begin_transport:
  assumes "js_get (metamcpServers g) (endpointName env) \<noteq> Undefined
           \<or> createServer_throws env = None"
    and "newTransport_throws env = None"
    and "randomUUID env \<noteq> []" and "randomUUID env \<noteq> ''__proto__''"
    and "\<forall>r \<in> set rs. \<not> ends_or_replaces (randomUUID env) r"
  shows "\<exists>t. transports (snd (post_handler env None g)) = (transports g)(randomUUID env \<mapsto> t)
           \<and> NewTransport t
               \<in> set (drop (length (events g)) (events (snd (post_handler env None g))))
           \<and> transports (serve_all rs (snd (post_handler env None g))) (randomUUID env) = Some t
           \<and> post_handler env' (Some (randomUUID env)) (serve_all rs (snd (post_handler env None g)))
               = ((case handleRequest_throws env' of
                     None \<Rightarrow> Forwarded t | Some err \<Rightarrow> Response 500 (Json err)),
                  (serve_all rs (snd (post_handler env None g)))
                    \<lparr> events := events (serve_all rs (snd (post_handler env None g)))
                                 @ [HandleRequest t] \<rparr>)
           \<and> get_handler env' (Some (randomUUID env)) (serve_all rs (snd (post_handler env None g)))
               = ((case handleRequest_throws env' of
                     None \<Rightarrow> Forwarded t | Some err \<Rightarrow> Response 500 (Json err)),
                  (serve_all rs (snd (post_handler env None g)))
                    \<lparr> events := events (serve_all rs (snd (post_handler env None g)))
                                 @ [HandleRequest t] \<rparr>)"
proof -
  let ?g1 = "snd (post_handler env None g)"
  let ?g2 = "serve_all rs ?g1"
  have g1: "?g1 = snd (post_begin env g)" by (simp add: post_handler_def)
  from begin_stores [OF assms(1,2,4)] obtain t where
    st: "transports ?g1 = (transports g)(randomUUID env \<mapsto> t)"
    and nt: "NewTransport t \<in> set (drop (length (events g)) (events ?g1))"
    unfolding g1 by blast
  have "transports ?g2 (randomUUID env) = transports ?g1 (randomUUID env)"
    by (rule serve_all_keeps_session [OF assms(5)])
  with st have later: "transports ?g2 (randomUUID env) = Some t" by simp
  note d = continue_dispatches [OF later assms(3,4), of env']
  from st nt later d show ?thesis by blast
qed

theorem continue_reuses_begin_transport_witness:
  "(\<exists>t. transports one_session = (transports gateway0)(''s1'' \<mapsto> t)
        \<and> NewTransport t \<in> set (events one_session)
        \<and> transports (serve_all other_traffic one_session) ''s1'' = Some t
        \<and> post_handler (env_ok ''ns'' ''e'' ''s9'') (Some ''s1'') (serve_all other_traffic one_session)
            = (Forwarded t,
               (serve_all other_traffic one_session)
                 \<lparr> events := events (serve_all other_traffic one_session) @ [HandleRequest t] \<rparr>)
        \<and> get_handler (env_ok ''ns'' ''e'' ''s9'') (Some ''s1'') (serve_all other_traffic one_session)
            = (Forwarded t,
               (serve_all other_traffic one_session)
                 \<lparr> events := events (serve_all other_traffic one_session) @ [HandleRequest t] \<rparr>))
   \<and> transports one_session ''s1'' = Some 1
   \<and> transports (serve_all other_traffic one_session) ''s2'' = None
   \<and> transports (serve_all other_traffic one_session) ''s3'' = Some 4"
proof -
  have e: "js_get (metamcpServers gateway0) (endpointName (env_ok ''ns'' ''e'' ''s1'')) \<noteq> Undefined
           \<or> createServer_throws (env_ok ''ns'' ''e'' ''s1'') = None"
    "newTransport_throws (env_ok ''ns'' ''e'' ''s1'') = None"
    "randomUUID (env_ok ''ns'' ''e'' ''s1'') \<noteq> []"
    "randomUUID (env_ok ''ns'' ''e'' ''s1'') \<noteq> ''__proto__''"
    by (simp_all add: env_ok_def)
  have q: "\<forall>r \<in> set other_traffic. \<not> ends_or_replaces (randomUUID (env_ok ''ns'' ''e'' ''s1'')) r"
    by (simp add: other_traffic_def env_ok_def)
  have n: "randomUUID (env_ok ''ns'' ''e'' ''s1'') = ''s1''"
    "handleRequest_throws (env_ok ''ns'' ''e'' ''s9'') = None" "events gateway0 = []"
    by (simp_all add: env_ok_def gateway0_def)
  have v: "transports one_session ''s1'' = Some 1"
    by (simp add: one_session_def post_handler_def post_begin_def env_ok_def gateway0_def
          count_or_zero_def js_get_def js_put_def object_prototype_members_def)
  have w: "transports (serve_all other_traffic one_session) ''s2'' = None
           \<and> transports (serve_all other_traffic one_session) ''s3'' = Some 4"
    by (simp add: other_traffic_def one_session_def post_handler_def post_begin_def
          post_continue_def get_handler_def forward_def delete_handler_def cleanupSession_def
          close_transport_def decrement_count_def cleanupEndpointIfUnused_def env_ok_def
          gateway0_def count_or_zero_def js_get_def js_put_def js_delete_def
          object_prototype_members_def)
  from continue_reuses_begin_transport [OF e q, where env' = "env_ok ''ns'' ''e'' ''s9''"] n v w
  show ?thesis by (simp add: one_session_def)
qed

end
